theory Spec2Isabelle
  imports Complex_Main
begin

section \<open>Numeric model\<close>

text \<open>
  The C++ works on \<^verbatim>\<open>float\<close> samples and positions and on \<^verbatim>\<open>size_t\<close> indices.
  A \<^verbatim>\<open>float\<close> is modelled by the real number it denotes, a \<^verbatim>\<open>float\<close> parameter such as
  a multiplier is taken to be a binary32 value, and the two kinds of float arithmetic in the
  source are kept apart:
  \<^item> Every operation whose result decides a length, a count or an index is rounded to
    binary32 by \<open>binary32\<close> below: the conversions of sizes and of the sample rate to
    \<^verbatim>\<open>float\<close>, the products that are converted back to \<^verbatim>\<open>size_t\<close>, the quotient and the
    product that give the source position of the resampler, the quotient that gives the
    position handed to the settings callback, and the running sum \<open>sample\<close> of the grain
    writer with the input position it gives.
  \<^item> The values of the samples (the cubic, the envelope, the sums in the output buffer) are
    computed in exact arithmetic: their rounding is not modelled.

  Each float operation is rounded once, to nearest with ties to even, as on a target that
  evaluates \<^verbatim>\<open>float\<close> expressions in binary32. Infinities are not modelled: a result of
  \<open>2 ^ 128\<close> or more is outside the model. A NaN arises at two places, both
  \<^verbatim>\<open>0.0f / 0.0f\<close>, which are described where they occur.

  A \<^verbatim>\<open>size_t\<close> is a \<^typ>\<open>nat\<close>. A \<^verbatim>\<open>std::vector\<close> is far shorter than \<open>2 ^ 64\<close>, so
  the sums and products of buffer indices below do not wrap and are written with the plain
  operations of \<^typ>\<open>nat\<close>. The three places where the source relies on the wrap-around of
  \<^verbatim>\<open>size_t\<close> are written out: the sentinel \<^verbatim>\<open>size_t(-1)\<close>, \<^verbatim>\<open>grain - 1\<close> at grain 0
  and \<^verbatim>\<open>input.size() - 1\<close> on an empty buffer.
\<close>

definition size_t_minus_1 :: nat where
  "size_t_minus_1 = 2 ^ 64 - 1"

text \<open>
  \<^verbatim>\<open>size_t(x)\<close> on a float truncates toward zero. The conversion is defined for
  \<open>-1 < x < 2 ^ 64\<close>; this is the range in which the model is meant.
\<close>

definition to_size_t :: "real \<Rightarrow> nat" where
  "to_size_t x = nat \<lfloor>x\<rfloor>"

text \<open>The number of binary digits of a natural number.\<close>

fun bitLength :: "nat \<Rightarrow> nat" where
  "bitLength n = (if n = 0 then 0 else Suc (bitLength (n div 2)))"

declare bitLength.simps [simp del]

text \<open>Rounding to the nearest integer, a tie to the even one.\<close>

definition roundHalfEven :: "real \<Rightarrow> int" where
  "roundHalfEven y =
     (let f = \<lfloor>y\<rfloor>;
          d = y - of_int f
      in if d < 1 / 2 then f
         else if 1 / 2 < d then f + 1
         else if even f then f else f + 1)"

text \<open>
  Rounding of a real number to binary32, to nearest with ties to even. \<open>units\<close> is the
  magnitude counted in the least subnormal \<open>2 ^ -149\<close>; a magnitude of \<open>L\<close> binary digits
  there has the exponent \<open>L - 150\<close>, and with 24 significant digits its unit in the last
  place is \<open>2 ^ (L - 24)\<close> least subnormals, or one of them when \<open>L\<close> is at most 24.
\<close>

definition binary32 :: "real \<Rightarrow> real" where
  "binary32 x =
     (let units = nat \<lfloor>\<bar>x\<bar> * 2 ^ 149\<rfloor>;
          shift = bitLength units - 24;
          ulp = 2 ^ shift / 2 ^ 149
      in sgn x * of_int (roundHalfEven (\<bar>x\<bar> / ulp)) * ulp)"

section \<open>Fractional Sample Reader\<close>

text \<open>\<^verbatim>\<open>CubicHermite\<close> (Source.cpp 344-351).\<close>

definition CubicHermite :: "real \<Rightarrow> real \<Rightarrow> real \<Rightarrow> real \<Rightarrow> real \<Rightarrow> real" where
  "CubicHermite A B C D t =
     (let a = - A / 2 + (3 * B) / 2 - (3 * C) / 2 + D / 2;
          b = A - (5 * B) / 2 + 2 * C - D / 2;
          c = - A / 2 + C / 2;
          d = B
      in a * t * t * t + b * t * t + c * t + d)"

text \<open>
  \<^verbatim>\<open>input.size() - 1\<close>, the upper clamp of every tap (Source.cpp 375-378). On an empty
  buffer the subtraction wraps to \<^verbatim>\<open>size_t(-1)\<close>.
\<close>

definition lastSlot :: "real list \<Rightarrow> nat" where
  "lastSlot input = (if input = [] then size_t_minus_1 else length input - 1)"

text \<open>
  The four interleaved buffer offsets that \<^verbatim>\<open>SampleChannelFractional\<close> reads
  (Source.cpp 362-378), in the order \<open>sampleIndexNeg1, sampleIndex0, sampleIndex1,
  sampleIndex2\<close>.
\<close>

definition tapIndices :: "real list \<Rightarrow> real \<Rightarrow> nat \<Rightarrow> nat \<Rightarrow> nat list" where
  "tapIndices input sampleFloat channel numChannels =
     (let sample = to_size_t sampleFloat;
          sampleIndexNeg1 = (if sample > 0 then sample - 1 else sample);
          sampleIndex0 = sample;
          sampleIndex1 = sample + 1;
          sampleIndex2 = sample + 2
      in map (\<lambda>i. min (i * numChannels + channel) (lastSlot input))
           [sampleIndexNeg1, sampleIndex0, sampleIndex1, sampleIndex2])"

text \<open>\<^verbatim>\<open>SampleChannelFractional\<close>, the cubic branch that is compiled (Source.cpp 353-381).\<close>

definition SampleChannelFractional :: "real list \<Rightarrow> real \<Rightarrow> nat \<Rightarrow> nat \<Rightarrow> real" where
  "SampleChannelFractional input sampleFloat channel numChannels =
     (let sampleFraction = sampleFloat - of_int \<lfloor>sampleFloat\<rfloor>;
          taps = tapIndices input sampleFloat channel numChannels
      in CubicHermite (input ! (taps ! 0)) (input ! (taps ! 1))
           (input ! (taps ! 2)) (input ! (taps ! 3)) sampleFraction)"

section \<open>Time-Only Resampler\<close>

datatype error = DivideByZero

text \<open>
  A sample of the resampler's output buffer: a number, or the NaN that the resampler
  produces in an output of exactly one frame.
\<close>

datatype sample = Finite real | NotANumber

text \<open>\<^verbatim>\<open>std::vector::resize(n)\<close>: keeps the first \<open>n\<close> elements, pads with zeros.\<close>

definition resize :: "sample list \<Rightarrow> nat \<Rightarrow> sample list" where
  "resize v n = take n v @ replicate (n - length v) (Finite 0)"

text \<open>
  The source position of an output frame (Source.cpp 410-413): \<open>percent\<close>, a float quotient
  of two converted counts, and \<open>srcSampleFloat\<close>, a float product. In an output of exactly
  one frame the quotient is \<^verbatim>\<open>0.0f / 0.0f\<close> and the position is a NaN, here \<open>None\<close>. (The
  loop asks for the position of frames below \<open>numOutSamples\<close> only.)
\<close>

definition sourcePosition :: "nat \<Rightarrow> nat \<Rightarrow> nat \<Rightarrow> real option" where
  "sourcePosition numSrcSamples numOutSamples outSample =
     (if numOutSamples = 1 then None
      else
        let percent = binary32 (binary32 (real outSample) /
                                binary32 (real (numOutSamples - 1)));
            srcSampleFloat = binary32 (binary32 (real numSrcSamples) * percent)
        in Some srcSampleFloat)"

text \<open>
  The inner loop over the channels of one output frame (Source.cpp 415-417). At a NaN
  position the conversion to an index is undefined in ISO C++; whatever index it yields is
  clamped into the buffer, and the cubic at a NaN fraction is a NaN, so every channel of
  the frame receives a NaN.
\<close>

definition resampleFrame ::
  "real list \<Rightarrow> nat \<Rightarrow> real option \<Rightarrow> sample list \<Rightarrow> nat \<Rightarrow> sample list" where
  "resampleFrame input numChannels srcSampleFloat output outSample =
     foldl (\<lambda>out channel.
              out[outSample * numChannels + channel :=
                    (case srcSampleFloat of
                       None \<Rightarrow> NotANumber
                     | Some position \<Rightarrow>
                         Finite (SampleChannelFractional input position channel
                                   numChannels))])
       output [0..<numChannels]"

text \<open>
  \<^verbatim>\<open>TimeAdjust\<close> (Source.cpp 402-419). \<open>output\<close> is the vector the caller passes in: it is
  resized to the truncated float product of the converted frame count and the multiplier,
  then every frame is assigned. A channel count of 0 divides by zero.
\<close>

definition TimeAdjust ::
  "real list \<Rightarrow> sample list \<Rightarrow> nat \<Rightarrow> real \<Rightarrow> error + sample list" where
  "TimeAdjust input output numChannels timeMultiplier =
     (if numChannels = 0 then Inl DivideByZero
      else
        let numSrcSamples = length input div numChannels;
            numOutSamples =
              to_size_t (binary32 (binary32 (real numSrcSamples) * timeMultiplier));
            output1 = resize output (numOutSamples * numChannels)
        in Inr (foldl (\<lambda>out outSample.
                         resampleFrame input numChannels
                           (sourcePosition numSrcSamples numOutSamples outSample)
                           out outSample)
                  output1 [0..<numOutSamples]))"

section \<open>Grain Writer\<close>

text \<open>\<^verbatim>\<open>enum class ECrossFade { None, In, Out }\<close>.\<close>

datatype ECrossFade = FadeNone | FadeIn | FadeOut

text \<open>
  The only state that outlives a call: the function-local \<^verbatim>\<open>static bool reportedError\<close>
  of \<^verbatim>\<open>SplatGrainToOutput\<close>, and what the program has printed on its standard output.
\<close>

record process_state =
  reportedError :: bool
  printed :: "string list"

definition initial_state :: process_state where
  "initial_state = \<lparr>reportedError = False, printed = []\<rparr>"

definition crossFadeMessage :: string where
  "crossFadeMessage =
     ''[-----ERROR-----] cross fade is longer than a grain size! (error only reported once)''"

text \<open>
  The envelope of one sample (Source.cpp 445-450), a sample value and so in exact
  arithmetic. With a fade and a cross-fade size of 0 the C++ divides \<^verbatim>\<open>0.0f\<close> by
  \<^verbatim>\<open>0.0f\<close> at sample 0 and the envelope is a NaN; the model has the value 0 there, and
  nothing below is stated about the sample values written in that case.
\<close>

definition envelopeAt :: "ECrossFade \<Rightarrow> nat \<Rightarrow> real \<Rightarrow> real" where
  "envelopeAt crossFade crossFadeSize sample =
     (let envelope = 1;
          envelope = (if crossFade \<noteq> FadeNone \<and> sample \<le> real crossFadeSize
                      then sample / real crossFadeSize else envelope);
          envelope = (if crossFade \<noteq> FadeNone \<and> crossFade = FadeOut
                      then 1 - envelope else envelope)
      in envelope)"

text \<open>The loop over the channels that adds one enveloped frame (Source.cpp 453-457).\<close>

definition addFrame ::
  "real list \<Rightarrow> nat \<Rightarrow> real \<Rightarrow> real \<Rightarrow> real list \<Rightarrow> nat \<Rightarrow> real list" where
  "addFrame input numChannels inputIndexSamples envelope output outputIndex =
     foldl (\<lambda>out channel.
              out[outputIndex + channel :=
                    out ! (outputIndex + channel) +
                    SampleChannelFractional input inputIndexSamples channel numChannels *
                    envelope])
       output [0..<numChannels]"

text \<open>
  The \<^verbatim>\<open>for\<close> loop of \<^verbatim>\<open>SplatGrainToOutput\<close> (Source.cpp 435-462); its variables are
  \<open>sample\<close>, \<open>outputIndex\<close>, \<open>numSamplesWritten\<close> and the output buffer. Each
  \<^verbatim>\<open>break\<close> and the loop condition are a branch that returns. The grain size and the
  grain start are converted to \<^verbatim>\<open>float\<close>, and \<open>sample\<close> and the input position
  \<open>inputIndexSamples\<close> are float sums. With a channel count of 0 and a step that is not
  positive the C++ loop does not end, so the loop is a partial function: \<open>None\<close> is
  "never returns".
\<close>

partial_function (option) splatLoop ::
  "real list \<Rightarrow> nat \<Rightarrow> nat \<Rightarrow> nat \<Rightarrow> ECrossFade \<Rightarrow> nat \<Rightarrow> real \<Rightarrow>
   real \<Rightarrow> nat \<Rightarrow> nat \<Rightarrow> real list \<Rightarrow> (nat \<times> real list) option" where
  "splatLoop input numChannels grainStart grainSize crossFade crossFadeSize pitchMultiplier
       sample outputIndex numSamplesWritten output =
     (if \<not> sample < binary32 (real grainSize) then Some (numSamplesWritten, output)
      else if outputIndex + numChannels > length output then Some (numSamplesWritten, output)
      else if to_size_t (binary32 (binary32 (real grainStart) + sample)) * numChannels +
                numChannels > length input
        then Some (numSamplesWritten, output)
      else splatLoop input numChannels grainStart grainSize crossFade crossFadeSize
             pitchMultiplier (binary32 (sample + pitchMultiplier))
             (outputIndex + numChannels) (numSamplesWritten + 1)
             (addFrame input numChannels (binary32 (binary32 (real grainStart) + sample))
                (envelopeAt crossFade crossFadeSize sample) output outputIndex))"

text \<open>The one-time report after the loop (Source.cpp 469-477).\<close>

definition reportCrossFade :: "process_state \<Rightarrow> bool \<Rightarrow> nat \<Rightarrow> nat \<Rightarrow> process_state" where
  "reportCrossFade st isFinalGrain crossFadeSize numSamplesWritten =
     (if \<not> isFinalGrain \<and> crossFadeSize > numSamplesWritten then
        (if \<not> reportedError st
         then st\<lparr>printed := printed st @ [crossFadeMessage], reportedError := True\<rparr>
         else st)
      else st)"

text \<open>
  \<^verbatim>\<open>SplatGrainToOutput\<close> (Source.cpp 424-481): the number of frames written, the output
  buffer and the process state after the call.
\<close>

definition SplatGrainToOutput ::
  "process_state \<Rightarrow> real list \<Rightarrow> real list \<Rightarrow> nat \<Rightarrow> nat \<Rightarrow> nat \<Rightarrow> nat \<Rightarrow>
   ECrossFade \<Rightarrow> nat \<Rightarrow> real \<Rightarrow> bool \<Rightarrow> (nat \<times> real list \<times> process_state) option" where
  "SplatGrainToOutput st input output numChannels grainStart grainSize outputSampleIndex
       crossFade crossFadeSize pitchMultiplier isFinalGrain =
     (case splatLoop input numChannels grainStart grainSize crossFade crossFadeSize
             pitchMultiplier 0 (outputSampleIndex * numChannels) 0 output of
        None \<Rightarrow> None
      | Some (numSamplesWritten, output') \<Rightarrow>
          Some (numSamplesWritten, output',
                reportCrossFade st isFinalGrain crossFadeSize numSamplesWritten))"

section \<open>Granular engine with fixed parameters\<close>

text \<open>
  The variables that the loops of \<^verbatim>\<open>GranularTimePitchAdjust\<close> update, with the process
  state that the calls of the grain writer thread through.
\<close>

record engine_state =
  outputSampleIndex :: nat
  lastGrainWritten :: nat
  outputBuffer :: "real list"
  process :: process_state

text \<open>\<^verbatim>\<open>grain - 1\<close> on \<^verbatim>\<open>size_t\<close>: at grain 0 it wraps to \<^verbatim>\<open>size_t(-1)\<close>.\<close>

definition grainMinus1 :: "nat \<Rightarrow> nat" where
  "grainMinus1 grain = (if grain = 0 then size_t_minus_1 else grain - 1)"

text \<open>
  One pass through the body of the \<^verbatim>\<open>while\<close> loop (Source.cpp 522-546): the plain write
  with its \<^verbatim>\<open>continue\<close>, or the fade-out write followed by the fade-in write.
\<close>

definition grainStep ::
  "real list \<Rightarrow> nat \<Rightarrow> nat \<Rightarrow> nat \<Rightarrow> real \<Rightarrow> nat \<Rightarrow> nat \<Rightarrow>
   engine_state \<Rightarrow> engine_state option" where
  "grainStep input numChannels grainSizeSamples crossFadeSizeSamples pitchMultiplier
       numGrains grain s =
     (let isFinalGrain = (grain = numGrains - 1);
          inputGrainStart = grain * grainSizeSamples
      in if lastGrainWritten s = size_t_minus_1 \<or> lastGrainWritten s = grainMinus1 grain
         then
           (case SplatGrainToOutput (process s) input (outputBuffer s) numChannels
                   inputGrainStart grainSizeSamples (outputSampleIndex s) FadeNone
                   crossFadeSizeSamples pitchMultiplier isFinalGrain of
              None \<Rightarrow> None
            | Some (written, out, st) \<Rightarrow>
                Some \<lparr>outputSampleIndex = outputSampleIndex s + written,
                      lastGrainWritten = grain, outputBuffer = out, process = st\<rparr>)
         else
           (case SplatGrainToOutput (process s) input (outputBuffer s) numChannels
                   ((lastGrainWritten s + 1) * grainSizeSamples) grainSizeSamples
                   (outputSampleIndex s) FadeOut crossFadeSizeSamples pitchMultiplier
                   isFinalGrain of
              None \<Rightarrow> None
            | Some (discarded, out1, st1) \<Rightarrow>
                (case SplatGrainToOutput st1 input out1 numChannels
                        inputGrainStart grainSizeSamples (outputSampleIndex s) FadeIn
                        crossFadeSizeSamples pitchMultiplier isFinalGrain of
                   None \<Rightarrow> None
                 | Some (written, out2, st2) \<Rightarrow>
                     Some \<lparr>outputSampleIndex = outputSampleIndex s + written,
                           lastGrainWritten = grain, outputBuffer = out2, process = st2\<rparr>)))"

text \<open>
  The \<^verbatim>\<open>while (outputSampleIndex < outputSampleWindowEnd)\<close> loop (Source.cpp 521-547).
  Nothing in the source bounds its number of passes, so it is a partial function:
  \<open>None\<close> is "never returns".
\<close>

partial_function (option) grainWhile ::
  "real list \<Rightarrow> nat \<Rightarrow> nat \<Rightarrow> nat \<Rightarrow> real \<Rightarrow> nat \<Rightarrow> nat \<Rightarrow> nat \<Rightarrow>
   engine_state \<Rightarrow> engine_state option" where
  "grainWhile input numChannels grainSizeSamples crossFadeSizeSamples pitchMultiplier
       numGrains grain outputSampleWindowEnd s =
     (if outputSampleIndex s < outputSampleWindowEnd
      then Option.bind
             (grainStep input numChannels grainSizeSamples crossFadeSizeSamples
                pitchMultiplier numGrains grain s)
             (\<lambda>s'. grainWhile input numChannels grainSizeSamples crossFadeSizeSamples
                      pitchMultiplier numGrains grain outputSampleWindowEnd s')
      else Some s)"

text \<open>The \<^verbatim>\<open>for\<close> loop over the grains (Source.cpp 508-548), on the grains still to do.\<close>

fun grainFor ::
  "real list \<Rightarrow> nat \<Rightarrow> nat \<Rightarrow> nat \<Rightarrow> real \<Rightarrow> real \<Rightarrow> nat \<Rightarrow> nat list \<Rightarrow>
   engine_state \<Rightarrow> engine_state option" where
  "grainFor input numChannels grainSizeSamples crossFadeSizeSamples timeMultiplier
       pitchMultiplier numGrains [] s = Some s"
| "grainFor input numChannels grainSizeSamples crossFadeSizeSamples timeMultiplier
       pitchMultiplier numGrains (grain # grains) s =
     (let inputGrainStart = grain * grainSizeSamples;
          outputSampleWindowEnd =
            to_size_t (binary32 (binary32 (real (inputGrainStart + grainSizeSamples)) *
                                 timeMultiplier))
      in Option.bind
           (grainWhile input numChannels grainSizeSamples crossFadeSizeSamples
              pitchMultiplier numGrains grain outputSampleWindowEnd s)
           (grainFor input numChannels grainSizeSamples crossFadeSizeSamples
              timeMultiplier pitchMultiplier numGrains grains))"

text \<open>
  \<^verbatim>\<open>GranularTimePitchAdjust\<close> (Source.cpp 483-549). The result is \<open>None\<close> when the call
  never returns, \<open>Some (Inl DivideByZero)\<close> when the channel count or the grain size in
  samples is 0 (an integer division by zero in the C++), and otherwise the output buffer
  with the process state. The output is cleared and refilled with zeros, so the buffer the
  caller passes in plays no part.
\<close>

definition GranularTimePitchAdjust ::
  "process_state \<Rightarrow> real list \<Rightarrow> nat \<Rightarrow> nat \<Rightarrow> real \<Rightarrow> real \<Rightarrow> real \<Rightarrow> real \<Rightarrow>
   (error + real list \<times> process_state) option" where
  "GranularTimePitchAdjust st input numChannels sampleRate timeMultiplier pitchMultiplier
       grainSizeSeconds crossFadeSeconds =
     (if numChannels = 0 then Some (Inl DivideByZero)
      else
        let numInputSamples = length input div numChannels;
            numOutputSamples =
              to_size_t (binary32 (binary32 (real numInputSamples) * timeMultiplier));
            output = replicate (numOutputSamples * numChannels) 0;
            grainSizeSamples =
              to_size_t (binary32 (binary32 (real sampleRate) * grainSizeSeconds))
        in if grainSizeSamples = 0 then Some (Inl DivideByZero)
           else
             let numGrains = numInputSamples div grainSizeSamples +
                             (if numInputSamples mod grainSizeSamples \<noteq> 0 then 1 else 0);
                 crossFadeSizeSamples =
                   to_size_t (binary32 (binary32 (real sampleRate) * crossFadeSeconds))
             in map_option (\<lambda>s. Inr (outputBuffer s, process s))
                  (grainFor input numChannels grainSizeSamples crossFadeSizeSamples
                     timeMultiplier pitchMultiplier numGrains [0..<numGrains]
                     \<lparr>outputSampleIndex = 0, lastGrainWritten = size_t_minus_1,
                      outputBuffer = output, process = st\<rparr>))"

text \<open>
  The output cursor, counted in frames, lies inside the output buffer or at its end.
\<close>

definition cursorInside :: "nat \<Rightarrow> engine_state \<Rightarrow> bool" where
  "cursorInside numChannels s \<longleftrightarrow>
     outputSampleIndex s * numChannels \<le> length (outputBuffer s)"

text \<open>
  The frame at which the window of a grain ends in the output, \<open>outputSampleWindowEnd\<close>
  (Source.cpp 513-515), as \<open>grainFor\<close> computes it.
\<close>

definition windowEndOf :: "nat \<Rightarrow> real \<Rightarrow> nat \<Rightarrow> nat" where
  "windowEndOf grainSizeSamples timeMultiplier grain =
     to_size_t (binary32 (binary32 (real (grain * grainSizeSamples + grainSizeSamples)) *
                          timeMultiplier))"

section \<open>Granular engine with dynamic parameters\<close>

text \<open>
  The settings callback receives the position in the sound and the two multipliers by
  reference, both preset to 1: it is a function from the position and the preset pair to
  the pair it leaves behind.
\<close>

type_synonym settings_callback = "real \<Rightarrow> real \<times> real \<Rightarrow> real \<times> real"

text \<open>
  The first loop of \<^verbatim>\<open>GranularTimePitchAdjustDynamic\<close> (Source.cpp 566-580), which sums
  the number of output frames to allocate. \<open>grainStart\<close> counts frames;
  \<^verbatim>\<open>input.size()\<close> counts interleaved samples.
\<close>

definition dynamicOutputSamples ::
  "real list \<Rightarrow> nat \<Rightarrow> nat \<Rightarrow> settings_callback \<Rightarrow> nat" where
  "dynamicOutputSamples input grainSizeSamples numGrains settingsCallback =
     foldl (\<lambda>numOutputSamples i.
              let grainStart = i * grainSizeSamples;
                  grainEnd = grainStart + grainSizeSamples;
                  grainEnd = min grainEnd (length input);
                  grainSize = grainEnd - grainStart;
                  percent = binary32 (binary32 (real i) / binary32 (real numGrains));
                  (timeMultiplier, pitchMultiplier) = settingsCallback percent (1, 1)
              in numOutputSamples +
                 to_size_t (binary32 (binary32 (real grainSize) * timeMultiplier)))
       0 [0..<numGrains]"

record dynamic_state = engine_state +
  lastGrainPitchMultiplier :: real
  outputSampleWindowEnd :: nat

text \<open>
  One pass through the body of the \<^verbatim>\<open>while\<close> loop of the dynamic engine
  (Source.cpp 610-637). The fade-out write uses the pitch multiplier of the grain written
  last.
\<close>

definition dynamicStep ::
  "real list \<Rightarrow> nat \<Rightarrow> nat \<Rightarrow> nat \<Rightarrow> real \<Rightarrow> nat \<Rightarrow> nat \<Rightarrow>
   dynamic_state \<Rightarrow> dynamic_state option" where
  "dynamicStep input numChannels grainSizeSamples crossFadeSizeSamples pitchMultiplier
       numGrains grain s =
     (let isFinalGrain = (grain = numGrains - 1);
          inputGrainStart = grain * grainSizeSamples
      in if lastGrainWritten s = size_t_minus_1 \<or> lastGrainWritten s = grainMinus1 grain
         then
           (case SplatGrainToOutput (process s) input (outputBuffer s) numChannels
                   inputGrainStart grainSizeSamples (outputSampleIndex s) FadeNone
                   crossFadeSizeSamples pitchMultiplier isFinalGrain of
              None \<Rightarrow> None
            | Some (written, out, st) \<Rightarrow>
                Some (s\<lparr>outputSampleIndex := outputSampleIndex s + written,
                        lastGrainWritten := grain, outputBuffer := out, process := st,
                        lastGrainPitchMultiplier := pitchMultiplier\<rparr>))
         else
           (case SplatGrainToOutput (process s) input (outputBuffer s) numChannels
                   ((lastGrainWritten s + 1) * grainSizeSamples) grainSizeSamples
                   (outputSampleIndex s) FadeOut crossFadeSizeSamples
                   (lastGrainPitchMultiplier s) isFinalGrain of
              None \<Rightarrow> None
            | Some (discarded, out1, st1) \<Rightarrow>
                (case SplatGrainToOutput st1 input out1 numChannels
                        inputGrainStart grainSizeSamples (outputSampleIndex s) FadeIn
                        crossFadeSizeSamples pitchMultiplier isFinalGrain of
                   None \<Rightarrow> None
                 | Some (written, out2, st2) \<Rightarrow>
                     Some (s\<lparr>outputSampleIndex := outputSampleIndex s + written,
                             lastGrainWritten := grain, outputBuffer := out2,
                             process := st2,
                             lastGrainPitchMultiplier := pitchMultiplier\<rparr>))))"

text \<open>The \<^verbatim>\<open>while\<close> loop of the dynamic engine (Source.cpp 609-638).\<close>

partial_function (option) dynamicWhile ::
  "real list \<Rightarrow> nat \<Rightarrow> nat \<Rightarrow> nat \<Rightarrow> real \<Rightarrow> nat \<Rightarrow> nat \<Rightarrow>
   dynamic_state \<Rightarrow> dynamic_state option" where
  "dynamicWhile input numChannels grainSizeSamples crossFadeSizeSamples pitchMultiplier
       numGrains grain s =
     (if outputSampleIndex s < outputSampleWindowEnd s
      then Option.bind
             (dynamicStep input numChannels grainSizeSamples crossFadeSizeSamples
                pitchMultiplier numGrains grain s)
             (\<lambda>s'. dynamicWhile input numChannels grainSizeSamples crossFadeSizeSamples
                      pitchMultiplier numGrains grain s')
      else Some s)"

text \<open>The \<^verbatim>\<open>for\<close> loop over the grains of the dynamic engine (Source.cpp 593-639).\<close>

fun dynamicFor ::
  "real list \<Rightarrow> nat \<Rightarrow> nat \<Rightarrow> nat \<Rightarrow> settings_callback \<Rightarrow> nat \<Rightarrow> nat list \<Rightarrow>
   dynamic_state \<Rightarrow> dynamic_state option" where
  "dynamicFor input numChannels grainSizeSamples crossFadeSizeSamples settingsCallback
       numGrains [] s = Some s"
| "dynamicFor input numChannels grainSizeSamples crossFadeSizeSamples settingsCallback
       numGrains (grain # grains) s =
     (let percent = binary32 (binary32 (real grain) / binary32 (real numGrains));
          (timeMultiplier, pitchMultiplier) = settingsCallback percent (1, 1);
          s1 = s\<lparr>outputSampleWindowEnd :=
                   outputSampleWindowEnd s +
                   to_size_t (binary32 (binary32 (real grainSizeSamples) *
                                        timeMultiplier))\<rparr>
      in Option.bind
           (dynamicWhile input numChannels grainSizeSamples crossFadeSizeSamples
              pitchMultiplier numGrains grain s1)
           (dynamicFor input numChannels grainSizeSamples crossFadeSizeSamples
              settingsCallback numGrains grains))"

text \<open>
  \<^verbatim>\<open>GranularTimePitchAdjustDynamic\<close> (Source.cpp 551-640), with the results of
  \<open>GranularTimePitchAdjust\<close>.
\<close>

definition GranularTimePitchAdjustDynamic ::
  "process_state \<Rightarrow> real list \<Rightarrow> nat \<Rightarrow> nat \<Rightarrow> real \<Rightarrow> real \<Rightarrow> settings_callback \<Rightarrow>
   (error + real list \<times> process_state) option" where
  "GranularTimePitchAdjustDynamic st input numChannels sampleRate grainSizeSeconds
       crossFadeSeconds settingsCallback =
     (if numChannels = 0 then Some (Inl DivideByZero)
      else
        let numInputSamples = length input div numChannels;
            grainSizeSamples =
              to_size_t (binary32 (binary32 (real sampleRate) * grainSizeSeconds))
        in if grainSizeSamples = 0 then Some (Inl DivideByZero)
           else
             let numGrains = numInputSamples div grainSizeSamples +
                             (if numInputSamples mod grainSizeSamples \<noteq> 0 then 1 else 0);
                 numOutputSamples =
                   dynamicOutputSamples input grainSizeSamples numGrains settingsCallback;
                 output = replicate (numOutputSamples * numChannels) 0;
                 crossFadeSizeSamples =
                   to_size_t (binary32 (binary32 (real sampleRate) * crossFadeSeconds))
             in map_option (\<lambda>s. Inr (outputBuffer s, process s))
                  (dynamicFor input numChannels grainSizeSamples crossFadeSizeSamples
                     settingsCallback numGrains [0..<numGrains]
                     \<lparr>outputSampleIndex = 0, lastGrainWritten = size_t_minus_1,
                      outputBuffer = output, process = st,
                      lastGrainPitchMultiplier = 1, outputSampleWindowEnd = 0\<rparr>))"

section \<open>Sequences of grain-writer calls\<close>

text \<open>The arguments of one call of \<^verbatim>\<open>SplatGrainToOutput\<close>.\<close>

record splat_call =
  callInput :: "real list"
  callOutput :: "real list"
  callNumChannels :: nat
  callGrainStart :: nat
  callGrainSize :: nat
  callOutputSampleIndex :: nat
  callCrossFade :: ECrossFade
  callCrossFadeSize :: nat
  callPitchMultiplier :: real
  callIsFinalGrain :: bool

definition callSplat ::
  "process_state \<Rightarrow> splat_call \<Rightarrow> (nat \<times> real list \<times> process_state) option" where
  "callSplat st c =
     SplatGrainToOutput st (callInput c) (callOutput c) (callNumChannels c)
       (callGrainStart c) (callGrainSize c) (callOutputSampleIndex c) (callCrossFade c)
       (callCrossFadeSize c) (callPitchMultiplier c) (callIsFinalGrain c)"

text \<open>
  Any calls made one after the other in one process, from the process state \<open>st\<close>: for each
  call, the number of frames it wrote and the lines it printed. The whole is \<open>None\<close> when
  one of the calls does not return.
\<close>

fun splatCalls :: "process_state \<Rightarrow> splat_call list \<Rightarrow> (nat \<times> string list) list option" where
  "splatCalls st [] = Some []"
| "splatCalls st (c # cs) =
     (case callSplat st c of
        None \<Rightarrow> None
      | Some (written, out, st') \<Rightarrow>
          map_option (\<lambda>rs. (written, drop (length (printed st)) (printed st')) # rs)
            (splatCalls st' cs))"

text \<open>
  What one call may print, given the number of frames it wrote: nothing, or the one
  message, and the message only when the grain is not final and the cross fade is longer
  than what was written.
\<close>

definition mayPrint :: "splat_call \<Rightarrow> nat \<times> string list \<Rightarrow> bool" where
  "mayPrint c r \<longleftrightarrow>
     snd r = [] \<or>
     snd r = [crossFadeMessage] \<and> \<not> callIsFinalGrain c \<and> fst r < callCrossFadeSize c"

section \<open>What the specification states about the allocation of the dynamic engine\<close>

text \<open>
  Not from the source: the output length in frames as the specification words it, for
  comparison with \<open>dynamicOutputSamples\<close>. Every grain counts with its full size, except
  that the final grain counts with the frames that remain in its channel when the number
  of frames per channel is not a multiple of the grain size; each size is scaled by the
  time multiplier that the callback gives at \<open>g / numGrains\<close>. Quotient and product are
  the float operations of the code, so that the two definitions differ in the size of the
  final grain only.
\<close>

definition specifiedOutputSamples ::
  "real list \<Rightarrow> nat \<Rightarrow> nat \<Rightarrow> nat \<Rightarrow> settings_callback \<Rightarrow> nat" where
  "specifiedOutputSamples input numChannels grainSizeSamples numGrains settingsCallback =
     sum_list (map (\<lambda>g.
          let numInputSamples = length input div numChannels;
              grainSize = (if g = numGrains - 1 \<and> numInputSamples mod grainSizeSamples \<noteq> 0
                           then numInputSamples - g * grainSizeSamples
                           else grainSizeSamples);
              timeMultiplier =
                fst (settingsCallback
                       (binary32 (binary32 (real g) / binary32 (real numGrains))) (1, 1))
          in to_size_t (binary32 (binary32 (real grainSize) * timeMultiplier)))
        [0..<numGrains])"

section \<open>The reader: taps and exact positions\<close>

lemma lastSlot_less: "input \<noteq> [] \<Longrightarrow> lastSlot input < length input"
  by (simp add: lastSlot_def)

lemma frame_slot_less:
  assumes "channel < numChannels" and "i < length input div numChannels"
  shows "i * numChannels + channel < length (input :: real list)"
proof -
  have "Suc i * numChannels \<le> (length input div numChannels) * numChannels"
    using assms(2) by (intro mult_le_mono1) simp
  also have "\<dots> \<le> length input"
    by simp
  finally show ?thesis
    using assms(1) by simp
qed

lemma CubicHermite_0: "CubicHermite A B C D 0 = B"
  by (simp add: CubicHermite_def)

lemma reader_at_frame:
  assumes "channel < numChannels" and "i < length input div numChannels"
  shows "SampleChannelFractional input (real i) channel numChannels =
         input ! (i * numChannels + channel)"
proof -
  have slot: "i * numChannels + channel < length input"
    using assms by (rule frame_slot_less)
  then have "input \<noteq> []"
    by auto
  with slot have "min (i * numChannels + channel) (lastSlot input) = i * numChannels + channel"
    by (simp add: lastSlot_def)
  then have "tapIndices input (real i) channel numChannels ! 1 = i * numChannels + channel"
    by (simp add: tapIndices_def to_size_t_def Let_def)
  then show ?thesis
    by (simp add: SampleChannelFractional_def Let_def CubicHermite_0)
qed

text \<open>
  Claim C5. On a buffer that is not empty, and for every position that is not negative
  (also one at or beyond the end of the buffer), each of the four offsets at which
  \<open>SampleChannelFractional\<close> reads the buffer is below the length of the buffer. The upper
  clamp is applied to each offset by itself, after the offset is computed, so the bound
  does not depend on the position, the channel or the channel count.
\<close>

theorem taps_in_bounds:
  assumes "input \<noteq> []" and "0 \<le> sampleFloat"
  shows "\<forall>i \<in> set (tapIndices input sampleFloat channel numChannels). i < length input"
  using lastSlot_less [OF assms(1)] by (auto simp: tapIndices_def Let_def min_def)

theorem taps_in_bounds_witness:
  "[1, 2, 3, 4 :: real] \<noteq> [] \<and> (0 :: real) \<le> 7 / 2 \<and>
   tapIndices [1, 2, 3, 4] (7 / 2) 0 2 = [3, 3, 3, 3] \<and>
   list_all (\<lambda>i. i < length [1, 2, 3, 4 :: real]) (tapIndices [1, 2, 3, 4] (7 / 2) 0 2)"
proof -
  have "tapIndices [1, 2, 3, 4] (7 / 2) 0 2 = [3, 3, 3, 3]"
    by (simp add: tapIndices_def to_size_t_def lastSlot_def)
  then show ?thesis
    using taps_in_bounds [of "[1, 2, 3, 4]" "7 / 2" 0 2] by (simp add: list_all_iff)
qed

text \<open>
  Claim C6. At a position that is exactly the frame number \<open>i\<close>, with \<open>i\<close> below the number
  of frames per channel, the reader returns the sample stored for that frame and channel:
  the fraction is 0 and the cubic evaluates to its second tap.
\<close>

theorem reader_exact_at_integer:
  assumes "channel < numChannels" and "i < length input div numChannels"
  shows "SampleChannelFractional input (real i) channel numChannels =
         input ! (i * numChannels + channel)"
  using assms by (rule reader_at_frame)

theorem reader_exact_at_integer_witness:
  "(1 :: nat) < 2 \<and> (1 :: nat) < length [10, 20, 30, 40 :: real] div 2 \<and>
   SampleChannelFractional [10, 20, 30, 40] (real (1 :: nat)) 1 2 = 40"
  using reader_exact_at_integer [of 1 2 1 "[10, 20, 30, 40]"] by simp

text \<open>
  Claim C10. There is a stereo buffer and a position near its end at which the value read
  for channel 0 changes with the last sample of channel 1: in the buffer of two frames
  \<open>[0, 0, 0, r]\<close> at position \<open>3 / 2\<close> the taps of channel 0 are the offsets 0, 2, 3 and 3,
  and offset 3 is the last sample of channel 1.
\<close>

theorem clamped_tap_crosses_channels:
  "\<exists>pos r r'. tapIndices [0, 0, 0, r] pos 0 2 = [0, 2, 3, 3] \<and>
     SampleChannelFractional [0, 0, 0, r] pos 0 2 \<noteq>
     SampleChannelFractional [0, 0, 0, r'] pos 0 2"
proof -
  have "tapIndices [0, 0, 0, 1] (3 / 2) 0 2 = [0, 2, 3, 3]"
    by (simp add: tapIndices_def to_size_t_def lastSlot_def)
  moreover have "SampleChannelFractional [0, 0, 0, 1] (3 / 2) 0 2 = 1 / 2"
    by (simp add: SampleChannelFractional_def tapIndices_def to_size_t_def lastSlot_def
        CubicHermite_def)
  moreover have "SampleChannelFractional [0, 0, 0, 0] (3 / 2) 0 2 = 0"
    by (simp add: SampleChannelFractional_def tapIndices_def to_size_t_def lastSlot_def
        CubicHermite_def)
  ultimately show ?thesis
    by (intro exI [of _ "3 / 2"] exI [of _ 1] exI [of _ 0]) simp
qed

section \<open>Binary32 values\<close>

lemma bitLength_le:
  "n < 2 ^ k \<Longrightarrow> bitLength n \<le> k"
proof (induction k arbitrary: n)
  case 0
  then show ?case by (simp add: bitLength.simps)
next
  case (Suc k)
  then have "n div 2 < 2 ^ k"
    by simp
  then have "bitLength (n div 2) \<le> k"
    by (rule Suc.IH)
  then show ?case
    by (subst bitLength.simps) simp
qed

lemma bitLength_gt:
  "2 ^ k \<le> n \<Longrightarrow> k < bitLength n"
proof (induction k arbitrary: n)
  case 0
  then show ?case by (subst bitLength.simps) simp
next
  case (Suc k)
  then have "2 ^ k \<le> n div 2"
    by simp
  then have "k < bitLength (n div 2)"
    by (rule Suc.IH)
  moreover have "n \<noteq> 0"
  proof
    assume "n = 0"
    with Suc.prems show False
      by simp
  qed
  ultimately show ?case
    by (subst bitLength.simps) simp
qed

lemma bitLength_eqI:
  assumes "2 ^ k \<le> n" and "n < 2 ^ Suc k"
  shows "bitLength n = Suc k"
  using bitLength_le [OF assms(2)] bitLength_gt [OF assms(1)] by simp

lemma roundHalfEven_of_int: "roundHalfEven (of_int k) = k"
  by (simp add: roundHalfEven_def)

lemma binary32_0: "binary32 0 = 0"
  by (simp add: binary32_def)

text \<open>A dyadic rational with a numerator of at most 24 bits is a binary32 value.\<close>

lemma binary32_dyadic:
  assumes "\<bar>m\<bar> < 2 ^ 24" and "j \<le> 149"
  shows "binary32 (of_int m / 2 ^ j) = of_int m / 2 ^ j"
proof -
  define x :: real where "x = of_int m / 2 ^ j"
  define a where "a = nat \<bar>m\<bar>"
  define units where "units = nat \<lfloor>\<bar>x\<bar> * 2 ^ 149\<rfloor>"
  define shift where "shift = bitLength units - 24"
  have abs: "\<bar>x\<bar> = real a / 2 ^ j"
    by (simp add: x_def a_def)
  have pow: "(2 :: real) ^ 149 = 2 ^ j * 2 ^ (149 - j)"
    using assms(2) by (simp flip: power_add)
  have scaled: "\<bar>x\<bar> * 2 ^ 149 = real (a * 2 ^ (149 - j))"
    unfolding abs pow by simp
  then have units: "units = a * 2 ^ (149 - j)"
    unfolding units_def by (simp only: floor_of_nat nat_int)
  have "a < 2 ^ 24"
    using assms(1) by (simp add: a_def)
  then have "a * 2 ^ (149 - j) < 2 ^ 24 * 2 ^ (149 - j)"
    by simp
  then have "units < 2 ^ (24 + (149 - j))"
    by (simp add: units power_add)
  then have "bitLength units \<le> 24 + (149 - j)"
    by (rule bitLength_le)
  then have shift: "shift \<le> 149 - j"
    by (simp add: shift_def)
  define d where "d = 149 - j - shift"
  have split: "149 = j + (shift + d)"
    using assms(2) shift by (simp add: d_def)
  have pow2: "(2 :: real) ^ 149 = 2 ^ j * (2 ^ shift * 2 ^ d)"
    by (subst split) (simp only: power_add)
  have quotient: "\<bar>x\<bar> / (2 ^ shift / 2 ^ 149) = of_int (int (a * 2 ^ d))"
    unfolding abs pow2 by simp
  have "binary32 x =
        sgn x * of_int (roundHalfEven (\<bar>x\<bar> / (2 ^ shift / 2 ^ 149))) * (2 ^ shift / 2 ^ 149)"
    by (simp add: binary32_def Let_def units_def shift_def)
  also have "\<dots> = sgn x * of_int (int (a * 2 ^ d)) * (2 ^ shift / 2 ^ 149)"
    by (simp only: quotient roundHalfEven_of_int)
  also have "\<dots> = sgn x * (\<bar>x\<bar> / (2 ^ shift / 2 ^ 149)) * (2 ^ shift / 2 ^ 149)"
    by (simp only: quotient)
  also have "\<dots> = sgn x * \<bar>x\<bar>"
    by simp
  also have "\<dots> = x"
    by (simp add: sgn_mult_abs)
  finally show ?thesis
    by (simp add: x_def)
qed

lemma binary32_nat:
  assumes "n < 2 ^ 24"
  shows "binary32 (real n) = real n"
  using binary32_dyadic [of "int n" 0] assms by simp

lemma binary32_at_exponent:
  assumes "2 ^ k \<le> nat \<lfloor>\<bar>x\<bar> * 2 ^ 149\<rfloor>" and "nat \<lfloor>\<bar>x\<bar> * 2 ^ 149\<rfloor> < 2 ^ Suc k"
  shows "binary32 x =
         sgn x * of_int (roundHalfEven (\<bar>x\<bar> / (2 ^ (Suc k - 24) / 2 ^ 149))) *
         (2 ^ (Suc k - 24) / 2 ^ 149)"
  by (simp only: binary32_def Let_def bitLength_eqI [OF assms])


lemma bitLength_bounds:
  "n \<noteq> 0 \<Longrightarrow> 2 ^ (bitLength n - 1) \<le> n" "n < 2 ^ bitLength n"
proof (induction n rule: bitLength.induct)
  case (1 n)
  {
    assume "n \<noteq> 0"
    show "2 ^ (bitLength n - 1) \<le> n"
    proof (cases "n div 2 = 0")
      case True
      with \<open>n \<noteq> 0\<close> have "n = 1"
        by (simp add: div_eq_0_iff)
      then show ?thesis
        by (simp add: bitLength.simps)
    next
      case False
      with 1(1) \<open>n \<noteq> 0\<close> have "2 ^ (bitLength (n div 2) - 1) \<le> n div 2"
        by simp
      moreover have "bitLength (n div 2) \<noteq> 0"
        using False by (subst bitLength.simps) simp
      moreover have "bitLength n = Suc (bitLength (n div 2))"
        using \<open>n \<noteq> 0\<close> by (subst bitLength.simps) simp
      ultimately show ?thesis
        by (cases "bitLength (n div 2)") simp_all
    qed
  }
  show "n < 2 ^ bitLength n"
  proof (cases "n = 0")
    case True
    then show ?thesis by simp
  next
    case False
    with 1(2) have "n div 2 < 2 ^ bitLength (n div 2)"
      by simp
    moreover have "bitLength n = Suc (bitLength (n div 2))"
      using False by (subst bitLength.simps) simp
    ultimately show ?thesis
      by simp
  qed
qed

lemma bitLength_mono:
  assumes "m \<le> n"
  shows "bitLength m \<le> bitLength n"
proof (cases "m = 0")
  case True
  then show ?thesis
    by (simp add: bitLength.simps)
next
  case False
  then have "2 ^ (bitLength m - 1) \<le> m"
    by (rule bitLength_bounds)
  with assms have "2 ^ (bitLength m - 1) \<le> n"
    by simp
  then have "bitLength m - 1 < bitLength n"
    by (rule bitLength_gt)
  then show ?thesis
    by simp
qed

lemma roundHalfEven_ge:
  assumes "of_int k \<le> y"
  shows "k \<le> roundHalfEven y"
proof -
  have "k \<le> \<lfloor>y\<rfloor>"
    using assms by (simp add: le_floor_iff)
  then show ?thesis
    by (simp add: roundHalfEven_def Let_def)
qed

lemma roundHalfEven_le:
  assumes "y \<le> of_int k"
  shows "roundHalfEven y \<le> k"
proof (cases "y = of_int k")
  case True
  then show ?thesis
    by (simp add: roundHalfEven_of_int)
next
  case False
  with assms have "y < of_int k"
    by simp
  then have "\<lfloor>y\<rfloor> < k"
    by (simp add: floor_less_iff)
  then show ?thesis
    by (simp add: roundHalfEven_def Let_def)
qed

lemma roundHalfEven_mono:
  assumes "a \<le> b"
  shows "roundHalfEven a \<le> roundHalfEven b"
proof (cases "\<lfloor>a\<rfloor> = \<lfloor>b\<rfloor>")
  case True
  with assms have "a - of_int \<lfloor>a\<rfloor> \<le> b - of_int \<lfloor>b\<rfloor>"
    by simp
  with True show ?thesis
    by (auto simp: roundHalfEven_def Let_def)
next
  case False
  moreover have "\<lfloor>a\<rfloor> \<le> \<lfloor>b\<rfloor>"
    using assms by (rule floor_mono)
  ultimately have "\<lfloor>a\<rfloor> + 1 \<le> \<lfloor>b\<rfloor>"
    by simp
  moreover have "roundHalfEven a \<le> \<lfloor>a\<rfloor> + 1"
    by (simp add: roundHalfEven_def Let_def)
  moreover have "\<lfloor>b\<rfloor> \<le> roundHalfEven b"
    by (simp add: roundHalfEven_def Let_def)
  ultimately show ?thesis
    by linarith
qed

text \<open>Rounding to binary32 keeps the order of numbers that are not negative.\<close>

lemma binary32_nonneg:
  assumes "0 \<le> x"
  shows "binary32 x =
         of_int (roundHalfEven (x / (2 ^ (bitLength (nat \<lfloor>x * 2 ^ 149\<rfloor>) - 24) / 2 ^ 149))) *
         (2 ^ (bitLength (nat \<lfloor>x * 2 ^ 149\<rfloor>) - 24) / 2 ^ 149)"
proof (cases "x = 0")
  case True
  then show ?thesis
    by (simp add: binary32_0 roundHalfEven_def)
next
  case False
  with assms have "sgn x = 1" and "\<bar>x\<bar> = x"
    by simp_all
  then show ?thesis
    by (simp only: binary32_def Let_def mult_1)
qed

lemma binary32_mono:
  assumes "0 \<le> x" and "x \<le> y"
  shows "binary32 x \<le> binary32 y"
proof -
  define Lx where "Lx = bitLength (nat \<lfloor>x * 2 ^ 149\<rfloor>)"
  define Ly where "Ly = bitLength (nat \<lfloor>y * 2 ^ 149\<rfloor>)"
  define sx where "sx = Lx - 24"
  define sy where "sy = Ly - 24"
  define ux :: real where "ux = 2 ^ sx / 2 ^ 149"
  define uy :: real where "uy = 2 ^ sy / 2 ^ 149"
  have y: "0 \<le> y"
    using assms by simp
  have ux: "0 < ux" and uy: "0 < uy"
    by (simp_all add: ux_def uy_def)
  have rx: "binary32 x = of_int (roundHalfEven (x / ux)) * ux"
    unfolding ux_def sx_def Lx_def using assms(1) by (rule binary32_nonneg)
  have ry: "binary32 y = of_int (roundHalfEven (y / uy)) * uy"
    unfolding uy_def sy_def Ly_def using y by (rule binary32_nonneg)
  have "nat \<lfloor>x * 2 ^ 149\<rfloor> \<le> nat \<lfloor>y * 2 ^ 149\<rfloor>"
    using assms(2) by (intro nat_mono floor_mono mult_right_mono) simp_all
  then have L: "Lx \<le> Ly"
    unfolding Lx_def Ly_def by (rule bitLength_mono)
  show ?thesis
  proof (cases "sx = sy")
    case True
    have "x / uy \<le> y / uy"
      using assms(2) uy by (intro divide_right_mono) simp_all
    then have "roundHalfEven (x / uy) \<le> roundHalfEven (y / uy)"
      by (rule roundHalfEven_mono)
    then have "real_of_int (roundHalfEven (x / uy)) \<le> real_of_int (roundHalfEven (y / uy))"
      by (simp only: of_int_le_iff)
    then have "real_of_int (roundHalfEven (x / uy)) * uy
               \<le> real_of_int (roundHalfEven (y / uy)) * uy"
      using uy by (intro mult_right_mono) simp_all
    moreover have "ux = uy"
      by (simp only: ux_def uy_def True)
    ultimately show ?thesis
      by (simp only: rx ry)
  next
    case False
    with L have shifts: "sx < sy"
      by (simp add: sx_def sy_def)
    then have big: "24 < Ly" and less: "Lx < Ly"
      by (simp_all add: sx_def sy_def)
    define K where "K = Lx - sx"
    have Lx_split: "Lx = sx + K"
      by (simp add: K_def sx_def)
    have Ly_split: "Ly - 1 = sy + 23"
      using big by (simp add: sy_def)
    have "nat \<lfloor>x * 2 ^ 149\<rfloor> < 2 ^ Lx"
      unfolding Lx_def by (rule bitLength_bounds)
    then have "\<lfloor>x * 2 ^ 149\<rfloor> < int (2 ^ Lx)"
      by linarith
    then have "x * 2 ^ 149 < real_of_int (int (2 ^ Lx))"
      by (simp only: floor_less_iff)
    moreover have "real_of_int (int (2 ^ Lx)) = 2 ^ sx * 2 ^ K"
      by (simp add: Lx_split power_add)
    ultimately have "x * 2 ^ 149 \<le> 2 ^ sx * 2 ^ K"
      by linarith
    then have "x * 2 ^ 149 / 2 ^ sx \<le> 2 ^ sx * 2 ^ K / 2 ^ sx"
      by (intro divide_right_mono) simp_all
    moreover have "x / ux = x * 2 ^ 149 / 2 ^ sx"
      by (simp add: ux_def)
    moreover have "(2 :: real) ^ sx * 2 ^ K / 2 ^ sx = real_of_int (2 ^ K)"
      by simp
    ultimately have "x / ux \<le> real_of_int (2 ^ K)"
      by (simp only:)
    then have "roundHalfEven (x / ux) \<le> 2 ^ K"
      by (rule roundHalfEven_le)
    then have "real_of_int (roundHalfEven (x / ux)) \<le> real_of_int (2 ^ K)"
      by (simp only: of_int_le_iff)
    then have "real_of_int (roundHalfEven (x / ux)) * ux \<le> real_of_int (2 ^ K) * ux"
      using ux by (intro mult_right_mono) simp_all
    moreover have "real_of_int (2 ^ K) * ux = 2 ^ Lx / 2 ^ 149"
      by (simp add: ux_def Lx_split power_add)
    ultimately have upper: "binary32 x \<le> 2 ^ Lx / 2 ^ 149"
      by (simp only: rx)
    have zero: "bitLength 0 = 0"
      by (simp add: bitLength.simps)
    have "nat \<lfloor>y * 2 ^ 149\<rfloor> \<noteq> 0"
    proof
      assume "nat \<lfloor>y * 2 ^ 149\<rfloor> = 0"
      then have "Ly = 0"
        by (simp only: Ly_def zero)
      with big show False
        by simp
    qed
    then have "2 ^ (Ly - 1) \<le> nat \<lfloor>y * 2 ^ 149\<rfloor>"
      unfolding Ly_def by (rule bitLength_bounds)
    moreover have "0 \<le> \<lfloor>y * 2 ^ 149\<rfloor>"
      using y by simp
    ultimately have "int (2 ^ (Ly - 1)) \<le> \<lfloor>y * 2 ^ 149\<rfloor>"
      by linarith
    then have "real_of_int (int (2 ^ (Ly - 1))) \<le> y * 2 ^ 149"
      by (simp only: le_floor_iff)
    moreover have "real_of_int (int (2 ^ (Ly - 1))) = 2 ^ sy * 2 ^ 23"
      unfolding Ly_split power_add by simp
    ultimately have "2 ^ sy * 2 ^ 23 \<le> y * 2 ^ 149"
      by linarith
    then have "2 ^ sy * 2 ^ 23 / 2 ^ sy \<le> y * 2 ^ 149 / 2 ^ sy"
      by (intro divide_right_mono) simp_all
    moreover have "y / uy = y * 2 ^ 149 / 2 ^ sy"
      by (simp add: uy_def)
    moreover have "(2 :: real) ^ sy * 2 ^ 23 / 2 ^ sy = real_of_int (2 ^ 23)"
      by simp
    ultimately have "real_of_int (2 ^ 23) \<le> y / uy"
      by (simp only:)
    then have "2 ^ 23 \<le> roundHalfEven (y / uy)"
      by (rule roundHalfEven_ge)
    then have "real_of_int (2 ^ 23) \<le> real_of_int (roundHalfEven (y / uy))"
      by (simp only: of_int_le_iff)
    then have "real_of_int (2 ^ 23) * uy \<le> real_of_int (roundHalfEven (y / uy)) * uy"
      using uy by (intro mult_right_mono) simp_all
    moreover have "real_of_int (2 ^ 23) * uy = 2 ^ (Ly - 1) / 2 ^ 149"
      unfolding Ly_split power_add uy_def by simp
    ultimately have lower: "2 ^ (Ly - 1) / 2 ^ 149 \<le> binary32 y"
      by (simp only: ry)
    have "Lx \<le> Ly - 1"
      using less by simp
    then have "(2 :: real) ^ Lx \<le> 2 ^ (Ly - 1)"
      by (intro power_increasing) simp_all
    then have "(2 :: real) ^ Lx / 2 ^ 149 \<le> 2 ^ (Ly - 1) / 2 ^ 149"
      by (intro divide_right_mono) simp_all
    with upper lower show ?thesis
      by linarith
  qed
qed

lemma binary32_nonneg_result:
  assumes "0 \<le> x"
  shows "0 \<le> binary32 x"
  using binary32_mono [of 0 x] assms by (simp add: binary32_0)

lemma binary32_1: "binary32 1 = 1"
  using binary32_nat [of 1] by simp

lemma binary32_numeral:
  "numeral k < (2 ^ 24 :: nat) \<Longrightarrow> binary32 (numeral k) = numeral k"
  using binary32_nat [of "numeral k"] by simp

lemma binary32_fractions:
  "binary32 (1 / 2) = 1 / 2" "binary32 (3 / 2) = 3 / 2" "binary32 (5 / 2) = 5 / 2"
  "binary32 (1 / 4) = 1 / 4" "binary32 (3 / 4) = 3 / 4" "binary32 (15 / 4) = 15 / 4"
  using binary32_dyadic [of 1 1] binary32_dyadic [of 3 1] binary32_dyadic [of 5 1]
    binary32_dyadic [of 1 2] binary32_dyadic [of 3 2] binary32_dyadic [of 15 2]
  by simp_all

lemmas evaluate_binary32 =
  binary32_0 binary32_1 binary32_numeral binary32_fractions


text \<open>
  The float \<^verbatim>\<open>0.02f\<close> is \<open>5368709 / 2 ^ 28\<close>. At the sample rate 44100 and the grain size
  of \<^verbatim>\<open>0.02f\<close> seconds that the driver uses, the float product is 882 and the grain has
  882 frames; the exact product lies below 882.
\<close>

lemma grain_size_of_the_driver:
  "to_size_t (binary32 (binary32 (real (44100 :: nat)) * (5368709 / 2 ^ 28))) = 882 \<and>
   to_size_t (real (44100 :: nat) * (5368709 / 2 ^ 28)) = 881"
proof -
  have "binary32 (44100 * (5368709 / 2 ^ 28)) = 882"
    by (subst binary32_at_exponent [where k = 158]) (simp_all add: roundHalfEven_def)
  then show ?thesis
    by (simp add: to_size_t_def binary32_numeral)
qed

section \<open>The resampler\<close>

text \<open>A loop that assigns the slots \<open>base, base + 1, \<dots>\<close> one after the other.\<close>

lemma assign_loop_length:
  "length (foldl (\<lambda>out c. out[f c := g out c]) buf cs) = length buf"
  by (induction cs arbitrary: buf) simp_all

lemma assign_loop_nth:
  assumes "i < length buf"
  shows "foldl (\<lambda>out c. out[base + c := g c]) buf [0..<m] ! i =
           (if base \<le> i \<and> i < base + m then g (i - base) else buf ! i)"
proof (induction m)
  case 0
  then show ?case by auto
next
  case (Suc m)
  show ?case
  proof (cases "i = base + m")
    case True
    then show ?thesis
      using assms by (simp add: assign_loop_length)
  next
    case False
    then show ?thesis
      using Suc assms by (auto simp: assign_loop_length)
  qed
qed

lemma resampleFrame_length:
  "length (resampleFrame input numChannels pos buf outSample) = length buf"
  by (simp add: resampleFrame_def assign_loop_length)

lemma resampleFrame_nth:
  assumes "i < length buf"
  shows "resampleFrame input numChannels pos buf outSample ! i =
     (if outSample * numChannels \<le> i \<and> i < outSample * numChannels + numChannels
      then (case pos of
              None \<Rightarrow> NotANumber
            | Some position \<Rightarrow>
                Finite (SampleChannelFractional input position
                          (i - outSample * numChannels) numChannels))
      else buf ! i)"
  unfolding resampleFrame_def using assms by (rule assign_loop_nth)

lemma resample_loop_length:
  "length (foldl (\<lambda>out k. resampleFrame input numChannels (pos k) out k) buf ks) =
   length buf"
  by (induction ks arbitrary: buf) (simp_all add: resampleFrame_length)

lemma same_frame:
  assumes "channel < numChannels"
  shows "m * numChannels \<le> k * numChannels + channel \<and>
         k * numChannels + channel < m * numChannels + numChannels \<longleftrightarrow> k = (m :: nat)"
proof
  assume h: "m * numChannels \<le> k * numChannels + channel \<and>
             k * numChannels + channel < m * numChannels + numChannels"
  have "m \<le> k"
  proof (rule ccontr)
    assume "\<not> m \<le> k"
    then have "Suc k \<le> m" by simp
    then have "Suc k * numChannels \<le> m * numChannels" by (rule mult_le_mono1)
    with h assms show False by simp
  qed
  moreover have "k \<le> m"
  proof (rule ccontr)
    assume "\<not> k \<le> m"
    then have "Suc m \<le> k" by simp
    then have "Suc m * numChannels \<le> k * numChannels" by (rule mult_le_mono1)
    with h show False by simp
  qed
  ultimately show "k = m" by simp
next
  assume "k = m"
  with assms show "m * numChannels \<le> k * numChannels + channel \<and>
             k * numChannels + channel < m * numChannels + numChannels" by simp
qed

lemma resample_loop_nth:
  assumes "channel < numChannels" and "k * numChannels + channel < length buf"
  shows "foldl (\<lambda>out k. resampleFrame input numChannels (pos k) out k) buf [0..<m] !
           (k * numChannels + channel) =
         (if k < m
          then (case pos k of
                  None \<Rightarrow> NotANumber
                | Some position \<Rightarrow>
                    Finite (SampleChannelFractional input position channel numChannels))
          else buf ! (k * numChannels + channel))"
proof (induction m)
  case 0
  then show ?case by simp
next
  case (Suc m)
  show ?case
  proof (cases "k = m")
    case True
    then show ?thesis
      using same_frame [OF assms(1), of m k] assms(2)
      by (simp add: resampleFrame_nth resample_loop_length split: option.split)
  next
    case False
    then show ?thesis
      using same_frame [OF assms(1), of m k] Suc assms(2)
      by (auto simp: resampleFrame_nth resample_loop_length)
  qed
qed

lemma resize_length: "length (resize v n) = n"
  by (simp add: resize_def)

lemma TimeAdjust_returns:
  assumes "numChannels \<ge> 1"
  shows "\<exists>out. TimeAdjust input buf numChannels timeMultiplier = Inr out \<and>
           length out =
           to_size_t (binary32 (binary32 (real (length input div numChannels)) *
                                timeMultiplier)) * numChannels"
  using assms by (simp add: TimeAdjust_def Let_def resample_loop_length resize_length)

lemma TimeAdjust_unity:
  assumes "numChannels \<ge> 1" and "length input = n * numChannels" and "n < 2 ^ 24"
  shows "TimeAdjust input buf numChannels 1 =
         Inr (foldl (\<lambda>out k. resampleFrame input numChannels (sourcePosition n n k) out k)
                (resize buf (n * numChannels)) [0..<n])"
  using assms by (simp add: TimeAdjust_def to_size_t_def Let_def binary32_nat)

lemma sourcePosition_unity:
  assumes "n \<ge> 2" and "n < 2 ^ 24" and "k < n"
  shows "sourcePosition n n k = Some (binary32 (real n * binary32 (real k / real (n - 1))))"
proof -
  have "k < 2 ^ 24" and "n - 1 < 2 ^ 24"
    using assms(2,3) by simp_all
  then have exact: "binary32 (real k) = real k" "binary32 (real (n - 1)) = real (n - 1)"
    "binary32 (real n) = real n"
    using assms(2) by (simp_all only: binary32_nat)
  have "n \<noteq> 1"
    using assms(1) by simp
  then show ?thesis
    unfolding sourcePosition_def Let_def exact by simp
qed

lemmas evaluate_reader =
  to_size_t_def SampleChannelFractional_def tapIndices_def lastSlot_def CubicHermite_def
  Let_def evaluate_binary32

lemmas evaluate_resampler =
  TimeAdjust_def resize_def resampleFrame_def sourcePosition_def evaluate_reader upt_rec
  numeral_3_eq_3

text \<open>
  An output of exactly one frame: two mono frames with the time multiplier \<open>1 / 2\<close>. The
  source position is \<^verbatim>\<open>0.0f / 0.0f\<close> and the one frame returned holds a NaN.
\<close>

lemma resample_one_frame:
  "TimeAdjust [1 / 2, 1 / 4] [] 1 (1 / 2) = Inr [NotANumber]"
  by (simp add: evaluate_resampler)

text \<open>
  A frame count of \<open>2 ^ 24 + 1\<close> is not a binary32 value: its conversion to \<^verbatim>\<open>float\<close> is
  \<open>2 ^ 24\<close>, and with the time multiplier 1 the output is one frame shorter than the
  input.
\<close>

lemma resample_unity_beyond_binary32:
  "\<exists>out. TimeAdjust (replicate (2 ^ 24 + 1) 0) buf 1 1 = Inr out \<and> length out = 2 ^ 24"
proof -
  have "binary32 16777217 = 16777216"
    by (subst binary32_at_exponent [where k = 173]) (simp_all add: roundHalfEven_def)
  moreover have "binary32 16777216 = 16777216"
    by (subst binary32_at_exponent [where k = 173]) (simp_all add: roundHalfEven_def)
  ultimately have "to_size_t (binary32 (binary32 (real (2 ^ 24 + 1 :: nat)) * 1)) = 2 ^ 24"
    by (simp add: to_size_t_def)
  then show ?thesis
    using TimeAdjust_returns [of 1 "replicate (2 ^ 24 + 1) 0" buf 1] by simp
qed




text \<open>
  Claim C3, as stated, fails. The three mono frames \<open>[0, 1, 0]\<close> resampled with the time
  multiplier 1 come out as \<open>[0, 9 / 16, 0]\<close>: output frame 1 reads the source at position
  \<open>3 * 1 / 2 = 1.5\<close>, not at position 1. The values are exact in binary32, so the
  difference of \<open>7 / 16\<close> is no rounding error.
\<close>

theorem resample_unity_counterexample:
  "TimeAdjust [0, 1, 0] [] 1 1 = Inr [Finite 0, Finite (9 / 16), Finite 0] \<and>
   TimeAdjust [0, 1, 0] [] 1 1 \<noteq> Inr (map Finite [0, 1, 0])"
  by (simp add: evaluate_resampler)

text \<open>
  Claim C3, amended. For an input of \<open>n\<close> frames of \<open>numChannels\<close> channels, with \<open>n\<close> at
  least 2 and below \<open>2 ^ 24\<close> (so that the frame count is a binary32 value; beyond, the
  output can be shorter than the input), the resampler with the time multiplier 1 returns
  a buffer of the length of the input whose frame \<open>k\<close> holds, for each channel, the value
  the reader gives at the source position \<open>n * k / (n - 1)\<close>, computed as a float quotient
  and a float product. Frame 0 is read at position 0 and equals frame 0 of the input. The
  values of the reader are in exact arithmetic.
\<close>

theorem resample_unity_positions:
  assumes "numChannels \<ge> 1" and "length input = n * numChannels"
    and "n \<ge> 2" and "n < 2 ^ 24"
  shows "\<exists>out. TimeAdjust input buf numChannels 1 = Inr out \<and>
           length out = length input \<and>
           (\<forall>k < n. \<forall>channel < numChannels.
              out ! (k * numChannels + channel) =
              Finite (SampleChannelFractional input
                        (binary32 (real n * binary32 (real k / real (n - 1))))
                        channel numChannels)) \<and>
           (\<forall>channel < numChannels. out ! channel = Finite (input ! channel))"
proof -
  define out where
    "out = foldl (\<lambda>out k. resampleFrame input numChannels (sourcePosition n n k) out k)
             (resize buf (n * numChannels)) [0..<n]"
  have run: "TimeAdjust input buf numChannels 1 = Inr out"
    unfolding out_def using assms(1,2,4) by (rule TimeAdjust_unity)
  have len: "length out = length input"
    by (simp add: out_def resample_loop_length resize_length assms(2))
  have frames: "length input div numChannels = n"
    using assms(1,2) by simp
  have at: "out ! (k * numChannels + channel) =
            Finite (SampleChannelFractional input
                      (binary32 (real n * binary32 (real k / real (n - 1))))
                      channel numChannels)"
    if "k < n" and "channel < numChannels" for k channel
  proof -
    have "k * numChannels + channel < length input"
      using that frames by (intro frame_slot_less) simp_all
    then have "k * numChannels + channel < length (resize buf (n * numChannels))"
      by (simp add: resize_length assms(2))
    then show ?thesis
      unfolding out_def using that
      by (simp add: resample_loop_nth sourcePosition_unity [OF assms(3,4)])
  qed
  have first: "out ! channel = Finite (input ! channel)"
    if "channel < numChannels" for channel
  proof -
    have "0 < length input div numChannels"
      using frames assms(3) by simp
    then have "SampleChannelFractional input (real (0 :: nat)) channel numChannels =
               input ! (0 * numChannels + channel)"
      using that by (intro reader_at_frame)
    moreover have "out ! (0 * numChannels + channel) =
               Finite (SampleChannelFractional input
                         (binary32 (real n * binary32 (real (0 :: nat) / real (n - 1))))
                         channel numChannels)"
      using that assms(3) by (intro at) simp_all
    ultimately show ?thesis
      by (simp add: binary32_0)
  qed
  show ?thesis
    using run len at first by (intro exI [of _ out]) simp
qed

theorem resample_unity_positions_witness:
  "(1 :: nat) \<ge> 1 \<and> length [0, 1, 0 :: real] = 3 * 1 \<and> (3 :: nat) \<ge> 2 \<and>
   (3 :: nat) < 2 ^ 24 \<and>
   (\<exists>out. TimeAdjust [0, 1, 0] [] 1 1 = Inr out \<and> length out = 3 \<and>
      out ! 1 = Finite (SampleChannelFractional [0, 1, 0] (3 / 2) 0 1) \<and>
      out ! 0 = Finite 0)"
proof -
  obtain out where out:
    "TimeAdjust [0, 1, 0] [] 1 1 = Inr out" "length out = length [0, 1, 0 :: real]"
    "\<forall>k < 3. \<forall>channel < 1.
       out ! (k * 1 + channel) =
       Finite (SampleChannelFractional [0, 1, 0]
                 (binary32 (real (3 :: nat) * binary32 (real k / real (3 - 1 :: nat))))
                 channel 1)"
    "\<forall>channel < 1. out ! channel = Finite ([0, 1, 0 :: real] ! channel)"
    using resample_unity_positions [of 1 "[0, 1, 0]" 3 "[]"] by auto
  from out(3) have "out ! (1 * 1 + 0) =
      Finite (SampleChannelFractional [0, 1, 0]
                (binary32 (real (3 :: nat) * binary32 (real (1 :: nat) / real (3 - 1 :: nat))))
                0 1)"
    by (meson less_numeral_extra(1) one_less_numeral_iff semiring_norm(77))
  then have "out ! 1 = Finite (SampleChannelFractional [0, 1, 0] (3 / 2) 0 1)"
    by (simp add: evaluate_binary32)
  moreover from out(4) have "out ! 0 = Finite 0"
    by simp
  ultimately show ?thesis
    using out(1,2) by simp
qed

section \<open>The grain writer\<close>

lemma update_loop_outside:
  assumes "i < base \<or> base + m \<le> i"
  shows "foldl (\<lambda>out c. out[base + c := g out c]) buf [0..<m] ! i = buf ! i"
  using assms by (induction m) auto

lemma addFrame_length:
  "length (addFrame input numChannels pos envelope buf outputIndex) = length buf"
  by (simp add: addFrame_def assign_loop_length)

lemma addFrame_outside:
  assumes "i < outputIndex \<or> outputIndex + numChannels \<le> i"
  shows "addFrame input numChannels pos envelope buf outputIndex ! i = buf ! i"
  unfolding addFrame_def using assms by (rule update_loop_outside)

lemma splatLoop_returns:
  assumes "numChannels \<ge> 1"
  shows "\<exists>written out.
           splatLoop input numChannels grainStart grainSize crossFade crossFadeSize
             pitchMultiplier sample outputIndex numSamplesWritten buf = Some (written, out) \<and>
           length out = length buf \<and>
           numSamplesWritten \<le> written \<and>
           (written = numSamplesWritten \<or>
            outputIndex + (written - numSamplesWritten) * numChannels \<le> length buf) \<and>
           (\<forall>i. i < outputIndex \<or>
                outputIndex + (written - numSamplesWritten) * numChannels \<le> i \<longrightarrow>
                out ! i = buf ! i)"
proof (induction "length buf - outputIndex"
    arbitrary: sample outputIndex numSamplesWritten buf rule: less_induct)
  case less
  let ?stop = "\<not> sample < binary32 (real grainSize) \<or>
     outputIndex + numChannels > length buf \<or>
     to_size_t (binary32 (binary32 (real grainStart) + sample)) * numChannels + numChannels
       > length input"
  show ?case
  proof (cases ?stop)
    case True
    then have "splatLoop input numChannels grainStart grainSize crossFade crossFadeSize
             pitchMultiplier sample outputIndex numSamplesWritten buf =
             Some (numSamplesWritten, buf)"
      by (subst splatLoop.simps) auto
    then show ?thesis
      by simp
  next
    case False
    define buf' where
      "buf' = addFrame input numChannels (binary32 (binary32 (real grainStart) + sample))
                (envelopeAt crossFade crossFadeSize sample) buf outputIndex"
    have room: "outputIndex + numChannels \<le> length buf"
      using False by simp
    have len': "length buf' = length buf"
      by (simp add: buf'_def addFrame_length)
    have unfold: "splatLoop input numChannels grainStart grainSize crossFade crossFadeSize
             pitchMultiplier sample outputIndex numSamplesWritten buf =
           splatLoop input numChannels grainStart grainSize crossFade crossFadeSize
             pitchMultiplier (binary32 (sample + pitchMultiplier)) (outputIndex + numChannels)
             (numSamplesWritten + 1) buf'"
      using False by (subst splatLoop.simps) (simp add: buf'_def)
    have "length buf' - (outputIndex + numChannels) < length buf - outputIndex"
      using room assms len' by simp
    from less [OF this]
    obtain written out where rec:
      "splatLoop input numChannels grainStart grainSize crossFade crossFadeSize
         pitchMultiplier (binary32 (sample + pitchMultiplier)) (outputIndex + numChannels)
         (numSamplesWritten + 1) buf' = Some (written, out)"
      "length out = length buf'"
      "numSamplesWritten + 1 \<le> written"
      "written = numSamplesWritten + 1 \<or>
       outputIndex + numChannels + (written - (numSamplesWritten + 1)) * numChannels
         \<le> length buf'"
      "\<forall>i. i < outputIndex + numChannels \<or>
           outputIndex + numChannels + (written - (numSamplesWritten + 1)) * numChannels \<le> i
           \<longrightarrow> out ! i = buf' ! i"
      by blast
    have split: "outputIndex + (written - numSamplesWritten) * numChannels =
           outputIndex + numChannels + (written - (numSamplesWritten + 1)) * numChannels"
    proof -
      have "written - numSamplesWritten = Suc (written - (numSamplesWritten + 1))"
        using rec(3) by simp
      then show ?thesis
        by simp
    qed
    have bound: "outputIndex + (written - numSamplesWritten) * numChannels \<le> length buf"
      using rec(4) room len' split by auto
    have same: "out ! i = buf ! i"
      if "i < outputIndex \<or> outputIndex + (written - numSamplesWritten) * numChannels \<le> i"
      for i
    proof -
      have "out ! i = buf' ! i"
        using that rec(5) split by auto
      moreover have "buf' ! i = buf ! i"
        unfolding buf'_def using that split by (intro addFrame_outside) auto
      ultimately show ?thesis
        by simp
    qed
    show ?thesis
      using unfold rec(1,2,3) len' bound same by auto
  qed
qed

lemma SplatGrainToOutput_returns:
  assumes "numChannels \<ge> 1"
  shows "\<exists>written out.
           SplatGrainToOutput st input buf numChannels grainStart grainSize outputOffset
             crossFade crossFadeSize pitchMultiplier isFinalGrain =
           Some (written, out, reportCrossFade st isFinalGrain crossFadeSize written) \<and>
           length out = length buf \<and>
           (written = 0 \<or> (outputOffset + written) * numChannels \<le> length buf) \<and>
           (\<forall>i. i < outputOffset * numChannels \<or>
                (outputOffset + written) * numChannels \<le> i \<longrightarrow> out ! i = buf ! i)"
proof -
  obtain written out where loop:
    "splatLoop input numChannels grainStart grainSize crossFade crossFadeSize
       pitchMultiplier 0 (outputOffset * numChannels) 0 buf = Some (written, out)"
    "length out = length buf"
    "written = 0 \<or> outputOffset * numChannels + (written - 0) * numChannels \<le> length buf"
    "\<forall>i. i < outputOffset * numChannels \<or>
         outputOffset * numChannels + (written - 0) * numChannels \<le> i \<longrightarrow>
         out ! i = buf ! i"
    using splatLoop_returns [OF assms, of input grainStart grainSize crossFade crossFadeSize
        pitchMultiplier 0 "outputOffset * numChannels" 0 buf]
    by blast
  have "SplatGrainToOutput st input buf numChannels grainStart grainSize outputOffset
             crossFade crossFadeSize pitchMultiplier isFinalGrain =
           Some (written, out, reportCrossFade st isFinalGrain crossFadeSize written)"
    by (simp add: SplatGrainToOutput_def loop(1))
  then show ?thesis
    using loop(2,3,4) by (simp add: add_mult_distrib)
qed

text \<open>
  Claim C4. With at least one channel, a call of the grain writer whose output offset does
  not exceed the number of frames of the output buffer returns, and the number of frames
  it reports to have written ends at or before the end of the buffer: offset plus written
  frames is at most the number of output frames, whatever the pitch multiplier, the grain
  and the fade. The buffer keeps its length, and no slot before the offset or from the
  end of the written frames on is changed.
\<close>

theorem grain_writer_stays_in_output:
  assumes "numChannels \<ge> 1" and "outputOffset \<le> length buf div numChannels"
  shows "\<exists>written out st'.
           SplatGrainToOutput st input buf numChannels grainStart grainSize outputOffset
             crossFade crossFadeSize pitchMultiplier isFinalGrain = Some (written, out, st') \<and>
           outputOffset + written \<le> length buf div numChannels \<and>
           length out = length buf \<and>
           (\<forall>i. i < outputOffset * numChannels \<or>
                (outputOffset + written) * numChannels \<le> i \<longrightarrow> out ! i = buf ! i)"
proof -
  obtain written out where call:
    "SplatGrainToOutput st input buf numChannels grainStart grainSize outputOffset
       crossFade crossFadeSize pitchMultiplier isFinalGrain =
     Some (written, out, reportCrossFade st isFinalGrain crossFadeSize written)"
    "length out = length buf"
    "written = 0 \<or> (outputOffset + written) * numChannels \<le> length buf"
    "\<forall>i. i < outputOffset * numChannels \<or>
         (outputOffset + written) * numChannels \<le> i \<longrightarrow> out ! i = buf ! i"
    using SplatGrainToOutput_returns [OF assms(1)] by blast
  have "outputOffset + written \<le> length buf div numChannels"
  proof (cases "written = 0")
    case True
    then show ?thesis
      using assms(2) by simp
  next
    case False
    then have "(outputOffset + written) * numChannels \<le> length buf"
      using call(3) by simp
    then show ?thesis
      using assms(1) by (simp add: less_eq_div_iff_mult_less_eq)
  qed
  then show ?thesis
    using call(1,2,4) by blast
qed

lemmas evaluate_writer =
  SplatGrainToOutput_def splatLoop.simps addFrame_def envelopeAt_def reportCrossFade_def
  evaluate_reader upt_rec

theorem grain_writer_stays_in_output_witness:
  "(1 :: nat) \<ge> 1 \<and> (2 :: nat) \<le> length [0, 0, 0 :: real] div 1 \<and>
   SplatGrainToOutput initial_state [1, 2, 3, 4, 5] [0, 0, 0] 1 1 4 2 FadeNone 0 (1 / 2) True =
     Some (1, [0, 0, 2], initial_state) \<and>
   (2 :: nat) + 1 \<le> length [0, 0, 0 :: real] div 1"
proof -
  have "SplatGrainToOutput initial_state [1, 2, 3, 4, 5] [0, 0, 0] 1 1 4 2 FadeNone 0 (1 / 2) True =
     Some (1, [0, 0, 2], initial_state)"
    by (simp add: evaluate_writer)
  then show ?thesis
    using grain_writer_stays_in_output [of 1 2 "[0, 0, 0]" initial_state "[1, 2, 3, 4, 5]"
        1 4 FadeNone 0 "1 / 2" True]
    by simp
qed

section \<open>The one-time report\<close>

lemma printed_reportCrossFade:
  "printed (reportCrossFade st isFinalGrain crossFadeSize written) =
   printed st @
   (if \<not> isFinalGrain \<and> written < crossFadeSize \<and> \<not> reportedError st
    then [crossFadeMessage] else [])"
  by (simp add: reportCrossFade_def)

lemma reportedError_reportCrossFade:
  "reportedError (reportCrossFade st isFinalGrain crossFadeSize written) \<longleftrightarrow>
   reportedError st \<or> \<not> isFinalGrain \<and> written < crossFadeSize"
  by (auto simp: reportCrossFade_def)

lemma splatCalls_returns:
  assumes "\<forall>c \<in> set calls. callNumChannels c \<ge> 1"
  shows "\<exists>rs. splatCalls st calls = Some rs \<and> list_all2 mayPrint calls rs \<and>
              length (concat (map snd rs)) \<le> (if reportedError st then 0 else 1)"
  using assms
proof (induction calls arbitrary: st)
  case Nil
  then show ?case by simp
next
  case (Cons c calls)
  from Cons.prems have "callNumChannels c \<ge> 1"
    by simp
  then obtain written out where call:
    "callSplat st c =
     Some (written, out,
           reportCrossFade st (callIsFinalGrain c) (callCrossFadeSize c) written)"
    unfolding callSplat_def using SplatGrainToOutput_returns by blast
  define st' where
    "st' = reportCrossFade st (callIsFinalGrain c) (callCrossFadeSize c) written"
  define lines where "lines = drop (length (printed st)) (printed st')"
  have lines: "lines = (if \<not> callIsFinalGrain c \<and> written < callCrossFadeSize c \<and>
                           \<not> reportedError st then [crossFadeMessage] else [])"
    by (simp add: lines_def st'_def printed_reportCrossFade)
  from Cons.prems have "\<forall>c \<in> set calls. callNumChannels c \<ge> 1"
    by simp
  from Cons.IH [OF this, of st']
  obtain rs where rest:
    "splatCalls st' calls = Some rs" "list_all2 mayPrint calls rs"
    "length (concat (map snd rs)) \<le> (if reportedError st' then 0 else 1)"
    by blast
  have run: "splatCalls st (c # calls) = Some ((written, lines) # rs)"
    using call rest(1) by (simp add: st'_def lines_def)
  have one: "mayPrint c (written, lines)"
    by (simp add: mayPrint_def lines)
  have count: "length (concat (map snd ((written, lines) # rs)))
               \<le> (if reportedError st then 0 else 1)"
    using rest(3) lines
    by (auto simp: st'_def reportedError_reportCrossFade split: if_splits)
  show ?case
    using run one rest(2) count by simp
qed

text \<open>
  Claim C7. Take any calls of the grain writer, made one after the other from the start of
  the process, each with at least one channel. Every call returns, so the report never
  aborts anything; over all the calls together at most one line is printed; and a call
  prints nothing, or exactly the cross-fade message, the latter only when its grain is not
  marked final and its cross-fade size exceeds the number of frames it wrote.
\<close>

theorem warning_at_most_once:
  assumes "\<forall>c \<in> set calls. callNumChannels c \<ge> 1"
  shows "\<exists>rs. splatCalls initial_state calls = Some rs \<and> list_all2 mayPrint calls rs \<and>
              length (concat (map snd rs)) \<le> 1"
  using splatCalls_returns [OF assms, of initial_state] by (simp add: initial_state_def)

theorem warning_at_most_once_witness:
  "callNumChannels
     \<lparr>callInput = [1, 2, 3], callOutput = [0, 0, 0], callNumChannels = 1,
      callGrainStart = 0, callGrainSize = 2, callOutputSampleIndex = 0,
      callCrossFade = FadeIn, callCrossFadeSize = 4, callPitchMultiplier = 1,
      callIsFinalGrain = False\<rparr> \<ge> 1 \<and>
   splatCalls initial_state
     (replicate 3
        \<lparr>callInput = [1, 2, 3], callOutput = [0, 0, 0], callNumChannels = 1,
         callGrainStart = 0, callGrainSize = 2, callOutputSampleIndex = 0,
         callCrossFade = FadeIn, callCrossFadeSize = 4, callPitchMultiplier = 1,
         callIsFinalGrain = False\<rparr>) =
   Some [(2, [crossFadeMessage]), (2, []), (2, [])]"
proof -
  define c where
    "c = \<lparr>callInput = [1, 2, 3], callOutput = [0, 0, 0], callNumChannels = 1,
          callGrainStart = 0, callGrainSize = 2, callOutputSampleIndex = 0,
          callCrossFade = FadeIn, callCrossFadeSize = 4, callPitchMultiplier = 1,
          callIsFinalGrain = False\<rparr>"
  have first: "callSplat st c =
      Some (2, [0, 1 / 2, 0],
            if reportedError st then st
            else st\<lparr>printed := printed st @ [crossFadeMessage], reportedError := True\<rparr>)"
    for st
    by (simp add: c_def callSplat_def SplatGrainToOutput_def splatLoop.simps addFrame_def
        envelopeAt_def reportCrossFade_def evaluate_reader upt_rec)
  have "splatCalls initial_state (replicate 3 c) =
        Some [(2, [crossFadeMessage]), (2, []), (2, [])]"
    by (simp add: numeral_3_eq_3 first initial_state_def)
  moreover have "callNumChannels c \<ge> 1"
    by (simp add: c_def)
  ultimately show ?thesis
    using warning_at_most_once [of "replicate 3 c"] unfolding c_def by simp
qed

section \<open>The splice step\<close>

text \<open>
  Claim C8. In the splice step, taken when the grain written last is neither the sentinel
  nor \<open>grain - 1\<close>, two writes are made at the same output offset, the current output
  cursor: first a fade-out write of the grain after the one written last, then, on the
  buffer and process state this leaves, a fade-in write of the current grain. The cursor
  advances by the frame count the fade-in write returns; the count of the fade-out write is
  not used. This holds for the step of the fixed engine (state \<open>s\<close>) and for the step of the
  dynamic engine (state \<open>d\<close>), whose fade-out write uses the pitch multiplier of the grain
  written last.
\<close>

theorem splice_writes:
  assumes "numChannels \<ge> 1"
    and "lastGrainWritten s \<noteq> size_t_minus_1" and "lastGrainWritten s \<noteq> grainMinus1 grain"
    and "lastGrainWritten d \<noteq> size_t_minus_1" and "lastGrainWritten d \<noteq> grainMinus1 grain"
  shows "(\<exists>discarded out1 st1 written out2 st2.
            SplatGrainToOutput (process s) input (outputBuffer s) numChannels
              ((lastGrainWritten s + 1) * grainSizeSamples) grainSizeSamples
              (outputSampleIndex s) FadeOut crossFadeSizeSamples pitchMultiplier
              (grain = numGrains - 1) = Some (discarded, out1, st1) \<and>
            SplatGrainToOutput st1 input out1 numChannels
              (grain * grainSizeSamples) grainSizeSamples
              (outputSampleIndex s) FadeIn crossFadeSizeSamples pitchMultiplier
              (grain = numGrains - 1) = Some (written, out2, st2) \<and>
            grainStep input numChannels grainSizeSamples crossFadeSizeSamples
              pitchMultiplier numGrains grain s =
            Some \<lparr>outputSampleIndex = outputSampleIndex s + written,
                  lastGrainWritten = grain, outputBuffer = out2, process = st2\<rparr>) \<and>
         (\<exists>discarded out1 st1 written out2 st2.
            SplatGrainToOutput (process d) input (outputBuffer d) numChannels
              ((lastGrainWritten d + 1) * grainSizeSamples) grainSizeSamples
              (outputSampleIndex d) FadeOut crossFadeSizeSamples
              (lastGrainPitchMultiplier d) (grain = numGrains - 1) =
            Some (discarded, out1, st1) \<and>
            SplatGrainToOutput st1 input out1 numChannels
              (grain * grainSizeSamples) grainSizeSamples
              (outputSampleIndex d) FadeIn crossFadeSizeSamples pitchMultiplier
              (grain = numGrains - 1) = Some (written, out2, st2) \<and>
            dynamicStep input numChannels grainSizeSamples crossFadeSizeSamples
              pitchMultiplier numGrains grain d =
            Some (d\<lparr>outputSampleIndex := outputSampleIndex d + written,
                    lastGrainWritten := grain, outputBuffer := out2, process := st2,
                    lastGrainPitchMultiplier := pitchMultiplier\<rparr>))"
proof
  obtain discarded out1 where fadeOut:
    "SplatGrainToOutput (process s) input (outputBuffer s) numChannels
       ((lastGrainWritten s + 1) * grainSizeSamples) grainSizeSamples
       (outputSampleIndex s) FadeOut crossFadeSizeSamples pitchMultiplier
       (grain = numGrains - 1) =
     Some (discarded, out1,
           reportCrossFade (process s) (grain = numGrains - 1) crossFadeSizeSamples discarded)"
    using SplatGrainToOutput_returns [OF assms(1)] by blast
  define st1 where
    "st1 = reportCrossFade (process s) (grain = numGrains - 1) crossFadeSizeSamples discarded"
  obtain written out2 where fadeIn:
    "SplatGrainToOutput st1 input out1 numChannels
       (grain * grainSizeSamples) grainSizeSamples
       (outputSampleIndex s) FadeIn crossFadeSizeSamples pitchMultiplier
       (grain = numGrains - 1) =
     Some (written, out2,
           reportCrossFade st1 (grain = numGrains - 1) crossFadeSizeSamples written)"
    using SplatGrainToOutput_returns [OF assms(1)] by blast
  have "grainStep input numChannels grainSizeSamples crossFadeSizeSamples
          pitchMultiplier numGrains grain s =
        Some \<lparr>outputSampleIndex = outputSampleIndex s + written,
              lastGrainWritten = grain, outputBuffer = out2,
              process = reportCrossFade st1 (grain = numGrains - 1) crossFadeSizeSamples
                          written\<rparr>"
    using assms(2,3) fadeOut fadeIn by (simp add: grainStep_def st1_def Let_def)
  with fadeOut fadeIn show "\<exists>discarded out1 st1 written out2 st2.
            SplatGrainToOutput (process s) input (outputBuffer s) numChannels
              ((lastGrainWritten s + 1) * grainSizeSamples) grainSizeSamples
              (outputSampleIndex s) FadeOut crossFadeSizeSamples pitchMultiplier
              (grain = numGrains - 1) = Some (discarded, out1, st1) \<and>
            SplatGrainToOutput st1 input out1 numChannels
              (grain * grainSizeSamples) grainSizeSamples
              (outputSampleIndex s) FadeIn crossFadeSizeSamples pitchMultiplier
              (grain = numGrains - 1) = Some (written, out2, st2) \<and>
            grainStep input numChannels grainSizeSamples crossFadeSizeSamples
              pitchMultiplier numGrains grain s =
            Some \<lparr>outputSampleIndex = outputSampleIndex s + written,
                  lastGrainWritten = grain, outputBuffer = out2, process = st2\<rparr>"
    unfolding st1_def by blast
next
  obtain discarded out1 where fadeOut:
    "SplatGrainToOutput (process d) input (outputBuffer d) numChannels
       ((lastGrainWritten d + 1) * grainSizeSamples) grainSizeSamples
       (outputSampleIndex d) FadeOut crossFadeSizeSamples (lastGrainPitchMultiplier d)
       (grain = numGrains - 1) =
     Some (discarded, out1,
           reportCrossFade (process d) (grain = numGrains - 1) crossFadeSizeSamples discarded)"
    using SplatGrainToOutput_returns [OF assms(1)] by blast
  define st1 where
    "st1 = reportCrossFade (process d) (grain = numGrains - 1) crossFadeSizeSamples discarded"
  obtain written out2 where fadeIn:
    "SplatGrainToOutput st1 input out1 numChannels
       (grain * grainSizeSamples) grainSizeSamples
       (outputSampleIndex d) FadeIn crossFadeSizeSamples pitchMultiplier
       (grain = numGrains - 1) =
     Some (written, out2,
           reportCrossFade st1 (grain = numGrains - 1) crossFadeSizeSamples written)"
    using SplatGrainToOutput_returns [OF assms(1)] by blast
  have "dynamicStep input numChannels grainSizeSamples crossFadeSizeSamples
          pitchMultiplier numGrains grain d =
        Some (d\<lparr>outputSampleIndex := outputSampleIndex d + written,
                lastGrainWritten := grain, outputBuffer := out2,
                process := reportCrossFade st1 (grain = numGrains - 1) crossFadeSizeSamples
                             written,
                lastGrainPitchMultiplier := pitchMultiplier\<rparr>)"
    using assms(4,5) fadeOut fadeIn by (simp add: dynamicStep_def st1_def Let_def)
  with fadeOut fadeIn show "\<exists>discarded out1 st1 written out2 st2.
            SplatGrainToOutput (process d) input (outputBuffer d) numChannels
              ((lastGrainWritten d + 1) * grainSizeSamples) grainSizeSamples
              (outputSampleIndex d) FadeOut crossFadeSizeSamples
              (lastGrainPitchMultiplier d) (grain = numGrains - 1) =
            Some (discarded, out1, st1) \<and>
            SplatGrainToOutput st1 input out1 numChannels
              (grain * grainSizeSamples) grainSizeSamples
              (outputSampleIndex d) FadeIn crossFadeSizeSamples pitchMultiplier
              (grain = numGrains - 1) = Some (written, out2, st2) \<and>
            dynamicStep input numChannels grainSizeSamples crossFadeSizeSamples
              pitchMultiplier numGrains grain d =
            Some (d\<lparr>outputSampleIndex := outputSampleIndex d + written,
                    lastGrainWritten := grain, outputBuffer := out2, process := st2,
                    lastGrainPitchMultiplier := pitchMultiplier\<rparr>)"
    unfolding st1_def by blast
qed

theorem splice_writes_witness:
  "(1 :: nat) \<ge> 1 \<and>
   lastGrainWritten \<lparr>outputSampleIndex = 2, lastGrainWritten = 0,
                     outputBuffer = [1, 2, 0, 0], process = initial_state\<rparr> = 0 \<and>
   (0 :: nat) \<noteq> size_t_minus_1 \<and> 0 \<noteq> grainMinus1 0 \<and>
   grainStep [1, 2, 3, 4] 1 2 1 1 2 0
     \<lparr>outputSampleIndex = 2, lastGrainWritten = 0,
      outputBuffer = [1, 2, 0, 0], process = initial_state\<rparr> =
   Some \<lparr>outputSampleIndex = 4, lastGrainWritten = 0,
         outputBuffer = [1, 2, 3, 2], process = initial_state\<rparr> \<and>
   dynamicStep [1, 2, 3, 4] 1 2 1 1 2 0
     \<lparr>outputSampleIndex = 2, lastGrainWritten = 0,
      outputBuffer = [1, 2, 0, 0], process = initial_state,
      lastGrainPitchMultiplier = 2, outputSampleWindowEnd = 4\<rparr> =
   Some \<lparr>outputSampleIndex = 4, lastGrainWritten = 0,
         outputBuffer = [1, 2, 3, 2], process = initial_state,
         lastGrainPitchMultiplier = 1, outputSampleWindowEnd = 4\<rparr>"
proof -
  have fadeOut: "SplatGrainToOutput initial_state [1, 2, 3, 4] [1, 2, 0, 0] (Suc 0) 2 2 2
                   FadeOut (Suc 0) 1 False = Some (2, [1, 2, 3, 0], initial_state)"
    by (simp add: evaluate_writer initial_state_def)
  have fadeOut2: "SplatGrainToOutput initial_state [1, 2, 3, 4] [1, 2, 0, 0] (Suc 0) 2 2 2
                   FadeOut (Suc 0) 2 False = Some (1, [1, 2, 3, 0], initial_state)"
    by (simp add: evaluate_writer initial_state_def)
  have fadeIn: "SplatGrainToOutput initial_state [1, 2, 3, 4] [1, 2, 3, 0] (Suc 0) 0 2 2
                   FadeIn (Suc 0) 1 False = Some (2, [1, 2, 3, 2], initial_state)"
    by (simp add: evaluate_writer initial_state_def)
  have sentinel: "(0 :: nat) \<noteq> size_t_minus_1" "0 \<noteq> grainMinus1 0"
    by (simp_all add: size_t_minus_1_def grainMinus1_def)
  show ?thesis
    using sentinel
      splice_writes [of 1
        "\<lparr>outputSampleIndex = 2, lastGrainWritten = 0,
          outputBuffer = [1, 2, 0, 0], process = initial_state\<rparr>" 0
        "\<lparr>outputSampleIndex = 2, lastGrainWritten = 0,
          outputBuffer = [1, 2, 0, 0], process = initial_state,
          lastGrainPitchMultiplier = 2, outputSampleWindowEnd = 4\<rparr>"
        "[1, 2, 3, 4]" 2 1 1 2]
    by (simp add: fadeOut fadeOut2 fadeIn)
qed

section \<open>The loop of the fixed engine\<close>

lemma SplatGrainToOutput_progress:
  assumes "numChannels \<ge> 1" and "0 < grainSize"
    and "outputOffset * numChannels + numChannels \<le> length buf"
    and "grainStart * numChannels + numChannels \<le> length input"
    and "grainStart < 2 ^ 24"
  shows "\<exists>written out.
           SplatGrainToOutput st input buf numChannels grainStart grainSize outputOffset
             crossFade crossFadeSize pitchMultiplier isFinalGrain =
           Some (written, out, reportCrossFade st isFinalGrain crossFadeSize written) \<and>
           length out = length buf \<and> 0 < written \<and>
           (outputOffset + written) * numChannels \<le> length buf"
proof -
  define position where "position = binary32 (binary32 (real grainStart) + 0)"
  define buf' where
    "buf' = addFrame input numChannels position
              (envelopeAt crossFade crossFadeSize 0) buf (outputOffset * numChannels)"
  have "binary32 1 \<le> binary32 (real grainSize)"
    using assms(2) by (intro binary32_mono) simp_all
  then have size: "0 < binary32 (real grainSize)"
    by (simp add: binary32_1)
  have "binary32 (real grainStart) = real grainStart"
    using assms(5) by (rule binary32_nat)
  then have "position = real grainStart"
    by (simp add: position_def)
  then have start: "to_size_t position = grainStart"
    by (simp add: to_size_t_def)
  have first: "splatLoop input numChannels grainStart grainSize crossFade crossFadeSize
                 pitchMultiplier 0 (outputOffset * numChannels) 0 buf =
               splatLoop input numChannels grainStart grainSize crossFade crossFadeSize
                 pitchMultiplier (binary32 (0 + pitchMultiplier))
                 (outputOffset * numChannels + numChannels) (0 + 1) buf'"
    using size assms(3,4) start
    by (subst splatLoop.simps) (simp add: buf'_def position_def)
  obtain written out where rest:
    "splatLoop input numChannels grainStart grainSize crossFade crossFadeSize
       pitchMultiplier (binary32 (0 + pitchMultiplier))
       (outputOffset * numChannels + numChannels) (0 + 1) buf' = Some (written, out)"
    "length out = length buf'" "0 + 1 \<le> written"
    "written = 0 + 1 \<or>
     outputOffset * numChannels + numChannels + (written - (0 + 1)) * numChannels
       \<le> length buf'"
    using splatLoop_returns [OF assms(1)] by blast
  have len: "length buf' = length buf"
    by (simp add: buf'_def addFrame_length)
  have "(outputOffset + written) * numChannels =
        outputOffset * numChannels + numChannels + (written - (0 + 1)) * numChannels"
  proof -
    have "written = Suc (written - (0 + 1))"
      using rest(3) by simp
    then have "written * numChannels = numChannels + (written - (0 + 1)) * numChannels"
      by (metis mult_Suc)
    then show ?thesis
      by (simp add: add_mult_distrib)
  qed
  then have "(outputOffset + written) * numChannels \<le> length buf"
    using rest(4) assms(3) len by auto
  moreover have "SplatGrainToOutput st input buf numChannels grainStart grainSize
                   outputOffset crossFade crossFadeSize pitchMultiplier isFinalGrain =
                 Some (written, out, reportCrossFade st isFinalGrain crossFadeSize written)"
    unfolding SplatGrainToOutput_def first rest(1) by simp
  ultimately show ?thesis
    using rest(2,3) len by simp
qed

lemma grainStep_returns:
  assumes "numChannels \<ge> 1" and "cursorInside numChannels s"
  shows "\<exists>s'. grainStep input numChannels grainSizeSamples crossFadeSizeSamples
                pitchMultiplier numGrains grain s = Some s' \<and>
              length (outputBuffer s') = length (outputBuffer s) \<and>
              outputSampleIndex s \<le> outputSampleIndex s' \<and>
              cursorInside numChannels s'"
proof (cases "lastGrainWritten s = size_t_minus_1 \<or> lastGrainWritten s = grainMinus1 grain")
  case True
  obtain written out where call:
    "SplatGrainToOutput (process s) input (outputBuffer s) numChannels
       (grain * grainSizeSamples) grainSizeSamples (outputSampleIndex s) FadeNone
       crossFadeSizeSamples pitchMultiplier (grain = numGrains - 1) =
     Some (written, out,
           reportCrossFade (process s) (grain = numGrains - 1) crossFadeSizeSamples written)"
    "length out = length (outputBuffer s)"
    "written = 0 \<or> (outputSampleIndex s + written) * numChannels \<le> length (outputBuffer s)"
    using SplatGrainToOutput_returns [OF assms(1)] by blast
  from True call(1) have "grainStep input numChannels grainSizeSamples crossFadeSizeSamples
          pitchMultiplier numGrains grain s =
        Some \<lparr>outputSampleIndex = outputSampleIndex s + written,
              lastGrainWritten = grain, outputBuffer = out,
              process = reportCrossFade (process s) (grain = numGrains - 1)
                          crossFadeSizeSamples written\<rparr>"
    by (simp add: grainStep_def Let_def)
  then show ?thesis
    using call(2,3) assms(2) by (auto simp: cursorInside_def)
next
  case False
  obtain discarded out1 where fadeOut:
    "SplatGrainToOutput (process s) input (outputBuffer s) numChannels
       ((lastGrainWritten s + 1) * grainSizeSamples) grainSizeSamples
       (outputSampleIndex s) FadeOut crossFadeSizeSamples pitchMultiplier
       (grain = numGrains - 1) =
     Some (discarded, out1,
           reportCrossFade (process s) (grain = numGrains - 1) crossFadeSizeSamples discarded)"
    "length out1 = length (outputBuffer s)"
    using SplatGrainToOutput_returns [OF assms(1)] by blast
  define st1 where
    "st1 = reportCrossFade (process s) (grain = numGrains - 1) crossFadeSizeSamples discarded"
  obtain written out2 where fadeIn:
    "SplatGrainToOutput st1 input out1 numChannels
       (grain * grainSizeSamples) grainSizeSamples
       (outputSampleIndex s) FadeIn crossFadeSizeSamples pitchMultiplier
       (grain = numGrains - 1) =
     Some (written, out2,
           reportCrossFade st1 (grain = numGrains - 1) crossFadeSizeSamples written)"
    "length out2 = length out1"
    "written = 0 \<or> (outputSampleIndex s + written) * numChannels \<le> length out1"
    using SplatGrainToOutput_returns [OF assms(1)] by blast
  from False fadeOut(1) fadeIn(1)
  have "grainStep input numChannels grainSizeSamples crossFadeSizeSamples
          pitchMultiplier numGrains grain s =
        Some \<lparr>outputSampleIndex = outputSampleIndex s + written,
              lastGrainWritten = grain, outputBuffer = out2,
              process = reportCrossFade st1 (grain = numGrains - 1) crossFadeSizeSamples
                          written\<rparr>"
    by (simp add: grainStep_def st1_def Let_def)
  then show ?thesis
    using fadeOut(2) fadeIn(2,3) assms(2) by (auto simp: cursorInside_def)
qed

lemma grainStep_progress:
  assumes "numChannels \<ge> 1" and "0 < grainSizeSamples"
    and "outputSampleIndex s * numChannels + numChannels \<le> length (outputBuffer s)"
    and "grain * grainSizeSamples * numChannels + numChannels \<le> length input"
    and "length input < 2 ^ 24"
  shows "\<exists>s'. grainStep input numChannels grainSizeSamples crossFadeSizeSamples
                pitchMultiplier numGrains grain s = Some s' \<and>
              length (outputBuffer s') = length (outputBuffer s) \<and>
              outputSampleIndex s < outputSampleIndex s' \<and>
              cursorInside numChannels s'"
proof -
  have "grain * grainSizeSamples * 1 \<le> grain * grainSizeSamples * numChannels"
    using assms(1) by (intro mult_le_mono2)
  then have "grain * grainSizeSamples \<le> grain * grainSizeSamples * numChannels"
    by simp
  with assms(4,5) have start: "grain * grainSizeSamples < 2 ^ 24"
    by linarith
  show ?thesis
  proof (cases "lastGrainWritten s = size_t_minus_1 \<or> lastGrainWritten s = grainMinus1 grain")
  case True
  obtain written out where call:
    "SplatGrainToOutput (process s) input (outputBuffer s) numChannels
       (grain * grainSizeSamples) grainSizeSamples (outputSampleIndex s) FadeNone
       crossFadeSizeSamples pitchMultiplier (grain = numGrains - 1) =
     Some (written, out,
           reportCrossFade (process s) (grain = numGrains - 1) crossFadeSizeSamples written)"
    "length out = length (outputBuffer s)" "0 < written"
    "(outputSampleIndex s + written) * numChannels \<le> length (outputBuffer s)"
    using SplatGrainToOutput_progress [OF assms(1,2,3,4) start] by blast
  from True call(1) have "grainStep input numChannels grainSizeSamples crossFadeSizeSamples
          pitchMultiplier numGrains grain s =
        Some \<lparr>outputSampleIndex = outputSampleIndex s + written,
              lastGrainWritten = grain, outputBuffer = out,
              process = reportCrossFade (process s) (grain = numGrains - 1)
                          crossFadeSizeSamples written\<rparr>"
    by (simp add: grainStep_def Let_def)
  then show ?thesis
    using call(2,3,4) by (auto simp: cursorInside_def)
next
  case False
  obtain discarded out1 where fadeOut:
    "SplatGrainToOutput (process s) input (outputBuffer s) numChannels
       ((lastGrainWritten s + 1) * grainSizeSamples) grainSizeSamples
       (outputSampleIndex s) FadeOut crossFadeSizeSamples pitchMultiplier
       (grain = numGrains - 1) =
     Some (discarded, out1,
           reportCrossFade (process s) (grain = numGrains - 1) crossFadeSizeSamples discarded)"
    "length out1 = length (outputBuffer s)"
    using SplatGrainToOutput_returns [OF assms(1)] by blast
  define st1 where
    "st1 = reportCrossFade (process s) (grain = numGrains - 1) crossFadeSizeSamples discarded"
  have room: "outputSampleIndex s * numChannels + numChannels \<le> length out1"
    using assms(3) fadeOut(2) by simp
  obtain written out2 where fadeIn:
    "SplatGrainToOutput st1 input out1 numChannels
       (grain * grainSizeSamples) grainSizeSamples
       (outputSampleIndex s) FadeIn crossFadeSizeSamples pitchMultiplier
       (grain = numGrains - 1) =
     Some (written, out2,
           reportCrossFade st1 (grain = numGrains - 1) crossFadeSizeSamples written)"
    "length out2 = length out1" "0 < written"
    "(outputSampleIndex s + written) * numChannels \<le> length out1"
    using SplatGrainToOutput_progress [OF assms(1,2) room assms(4) start] by blast
  from False fadeOut(1) fadeIn(1)
  have "grainStep input numChannels grainSizeSamples crossFadeSizeSamples
          pitchMultiplier numGrains grain s =
        Some \<lparr>outputSampleIndex = outputSampleIndex s + written,
              lastGrainWritten = grain, outputBuffer = out2,
              process = reportCrossFade st1 (grain = numGrains - 1) crossFadeSizeSamples
                          written\<rparr>"
    by (simp add: grainStep_def st1_def Let_def)
  then show ?thesis
    using fadeOut(2) fadeIn(2,3,4) by (auto simp: cursorInside_def)
qed
qed

lemma grainWhile_returns:
  assumes "numChannels \<ge> 1" and "0 < grainSizeSamples"
    and "grain * grainSizeSamples * numChannels + numChannels \<le> length input"
    and "windowEnd * numChannels \<le> length (outputBuffer s)"
    and "cursorInside numChannels s"
    and "length input < 2 ^ 24"
  shows "\<exists>s'. grainWhile input numChannels grainSizeSamples crossFadeSizeSamples
                pitchMultiplier numGrains grain windowEnd s = Some s' \<and>
              length (outputBuffer s') = length (outputBuffer s) \<and>
              cursorInside numChannels s'"
  using assms(4,5)
proof (induction "length (outputBuffer s) - outputSampleIndex s * numChannels"
    arbitrary: s rule: less_induct)
  case less
  show ?case
  proof (cases "outputSampleIndex s < windowEnd")
    case False
    then have "grainWhile input numChannels grainSizeSamples crossFadeSizeSamples
                pitchMultiplier numGrains grain windowEnd s = Some s"
      by (subst grainWhile.simps) simp
    then show ?thesis
      using less.prems(2) by simp
  next
    case True
    then have "Suc (outputSampleIndex s) * numChannels \<le> windowEnd * numChannels"
      by (intro mult_le_mono1) simp
    then have room: "outputSampleIndex s * numChannels + numChannels
                     \<le> length (outputBuffer s)"
      using less.prems(1) by simp
    obtain s1 where step:
      "grainStep input numChannels grainSizeSamples crossFadeSizeSamples
         pitchMultiplier numGrains grain s = Some s1"
      "length (outputBuffer s1) = length (outputBuffer s)"
      "outputSampleIndex s < outputSampleIndex s1"
      "cursorInside numChannels s1"
      using grainStep_progress [OF assms(1,2) room assms(3,6)] by blast
    have "Suc (outputSampleIndex s) * numChannels \<le> outputSampleIndex s1 * numChannels"
      using step(3) by (intro mult_le_mono1) simp
    then have "length (outputBuffer s1) - outputSampleIndex s1 * numChannels
               < length (outputBuffer s) - outputSampleIndex s * numChannels"
      using step(2) room assms(1) by simp
    from less.hyps [OF this] less.prems(1) step(2,4)
    obtain s' where rest:
      "grainWhile input numChannels grainSizeSamples crossFadeSizeSamples
         pitchMultiplier numGrains grain windowEnd s1 = Some s'"
      "length (outputBuffer s') = length (outputBuffer s1)"
      "cursorInside numChannels s'"
      by auto
    have "grainWhile input numChannels grainSizeSamples crossFadeSizeSamples
            pitchMultiplier numGrains grain windowEnd s = Some s'"
      using True step(1) rest(1) by (subst grainWhile.simps) simp
    then show ?thesis
      using rest(2,3) step(2) by simp
  qed
qed

lemma grainWhile_never_returns:
  assumes "numChannels \<ge> 1" and "cursorInside numChannels s"
    and "length (outputBuffer s) < windowEnd * numChannels"
  shows "grainWhile input numChannels grainSizeSamples crossFadeSizeSamples
           pitchMultiplier numGrains grain windowEnd s = None"
proof (rule ccontr)
  assume "grainWhile input numChannels grainSizeSamples crossFadeSizeSamples
           pitchMultiplier numGrains grain windowEnd s \<noteq> None"
  then obtain r where "grainWhile input numChannels grainSizeSamples crossFadeSizeSamples
           pitchMultiplier numGrains grain windowEnd s = Some r"
    by blast
  then have "\<not> (numChannels \<ge> 1 \<and> cursorInside numChannels s \<and>
                 length (outputBuffer s) < windowEnd * numChannels)"
  proof (induction rule: grainWhile.raw_induct [rotated 1, consumes 1])
    case (1 loop input numChannels grainSizeSamples crossFadeSizeSamples pitchMultiplier
        numGrains grain windowEnd s r)
    show ?case
    proof
      assume inv: "numChannels \<ge> 1 \<and> cursorInside numChannels s \<and>
                   length (outputBuffer s) < windowEnd * numChannels"
      then have "outputSampleIndex s * numChannels \<le> length (outputBuffer s)"
        and "length (outputBuffer s) < windowEnd * numChannels"
        by (simp_all add: cursorInside_def)
      then have "outputSampleIndex s * numChannels < windowEnd * numChannels"
        by (rule le_less_trans)
      then have below: "outputSampleIndex s < windowEnd"
        by simp
      obtain s1 where step:
        "grainStep input numChannels grainSizeSamples crossFadeSizeSamples
           pitchMultiplier numGrains grain s = Some s1"
        "length (outputBuffer s1) = length (outputBuffer s)"
        "cursorInside numChannels s1"
        using inv grainStep_returns [of numChannels s] by blast
      from 1(2) below step(1)
      have "loop input numChannels grainSizeSamples crossFadeSizeSamples
              pitchMultiplier numGrains grain windowEnd s1 = Some r"
        by simp
      from 1(1) [OF this] inv step(2,3) show False
        by simp
    qed
  qed
  with assms show False
    by simp
qed

lemma grainFor_result:
  assumes "numChannels \<ge> 1" and "0 < grainSizeSamples"
    and "\<forall>grain \<in> set grains.
           grain * grainSizeSamples * numChannels + numChannels \<le> length input"
    and "cursorInside numChannels s"
    and "length input < 2 ^ 24"
  shows "if \<forall>grain \<in> set grains.
              windowEndOf grainSizeSamples timeMultiplier grain * numChannels
              \<le> length (outputBuffer s)
         then \<exists>s'. grainFor input numChannels grainSizeSamples crossFadeSizeSamples
                      timeMultiplier pitchMultiplier numGrains grains s = Some s' \<and>
                    length (outputBuffer s') = length (outputBuffer s)
         else grainFor input numChannels grainSizeSamples crossFadeSizeSamples
                timeMultiplier pitchMultiplier numGrains grains s = None"
  using assms(3,4)
proof (induction grains arbitrary: s)
  case Nil
  then show ?case by simp
next
  case (Cons grain grains)
  let ?windowEnd = "windowEndOf grainSizeSamples timeMultiplier grain"
  have unfold: "grainFor input numChannels grainSizeSamples crossFadeSizeSamples
                  timeMultiplier pitchMultiplier numGrains (grain # grains) s =
                Option.bind
                  (grainWhile input numChannels grainSizeSamples crossFadeSizeSamples
                     pitchMultiplier numGrains grain ?windowEnd s)
                  (grainFor input numChannels grainSizeSamples crossFadeSizeSamples
                     timeMultiplier pitchMultiplier numGrains grains)"
    by (simp add: windowEndOf_def)
  show ?case
  proof (cases "?windowEnd * numChannels \<le> length (outputBuffer s)")
    case False
    then have "grainWhile input numChannels grainSizeSamples crossFadeSizeSamples
                 pitchMultiplier numGrains grain ?windowEnd s = None"
      using assms(1) Cons.prems(2) by (intro grainWhile_never_returns) simp_all
    then show ?thesis
      using False unfold by simp
  next
    case True
    from Cons.prems(1)
    have "grain * grainSizeSamples * numChannels + numChannels \<le> length input"
      by simp
    from grainWhile_returns [OF assms(1,2) this True Cons.prems(2) assms(5)]
    obtain s1 where this_grain:
      "grainWhile input numChannels grainSizeSamples crossFadeSizeSamples
         pitchMultiplier numGrains grain ?windowEnd s = Some s1"
      "length (outputBuffer s1) = length (outputBuffer s)"
      "cursorInside numChannels s1"
      by blast
    from Cons.prems(1)
    have "\<forall>grain \<in> set grains.
            grain * grainSizeSamples * numChannels + numChannels \<le> length input"
      by simp
    note rest = Cons.IH [OF this this_grain(3)]
    have eq: "grainFor input numChannels grainSizeSamples crossFadeSizeSamples
                timeMultiplier pitchMultiplier numGrains (grain # grains) s =
              grainFor input numChannels grainSizeSamples crossFadeSizeSamples
                timeMultiplier pitchMultiplier numGrains grains s1"
      unfolding unfold this_grain(1) by simp
    show ?thesis
    proof (cases "\<forall>grain \<in> set grains.
                    windowEndOf grainSizeSamples timeMultiplier grain * numChannels
                    \<le> length (outputBuffer s1)")
      case fits: True
      with rest obtain s' where
        "grainFor input numChannels grainSizeSamples crossFadeSizeSamples
           timeMultiplier pitchMultiplier numGrains grains s1 = Some s'"
        "length (outputBuffer s') = length (outputBuffer s1)"
        by auto
      then show ?thesis
        using fits True eq this_grain(2) by simp
    next
      case overflows: False
      with rest have
        "grainFor input numChannels grainSizeSamples crossFadeSizeSamples
           timeMultiplier pitchMultiplier numGrains grains s1 = None"
        by simp
      then show ?thesis
        using overflows eq this_grain(2) by simp
    qed
  qed
qed


lemma grain_has_input:
  assumes "0 < grainSizeSamples"
    and "grain < n div grainSizeSamples + (if n mod grainSizeSamples \<noteq> 0 then 1 else 0)"
  shows "grain * grainSizeSamples < (n :: nat)"
proof (cases "n mod grainSizeSamples = 0")
  case True
  with assms(2) have "Suc grain \<le> n div grainSizeSamples"
    by simp
  then have "Suc grain * grainSizeSamples \<le> (n div grainSizeSamples) * grainSizeSamples"
    by (rule mult_le_mono1)
  also have "\<dots> \<le> n"
    by simp
  finally show ?thesis
    using assms(1) by simp
next
  case False
  with assms(2) have "grain \<le> n div grainSizeSamples"
    by simp
  then have "grain * grainSizeSamples \<le> (n div grainSizeSamples) * grainSizeSamples"
    by (rule mult_le_mono1)
  also have "\<dots> < n"
  proof -
    have "n = (n div grainSizeSamples) * grainSizeSamples + n mod grainSizeSamples"
      by simp
    with False show ?thesis
      by linarith
  qed
  finally show ?thesis .
qed

lemma windowEndOf_mono:
  assumes "0 \<le> timeMultiplier" and "grain \<le> grain'"
  shows "windowEndOf grainSizeSamples timeMultiplier grain
         \<le> windowEndOf grainSizeSamples timeMultiplier grain'"
proof -
  have "grain * grainSizeSamples + grainSizeSamples
        \<le> grain' * grainSizeSamples + grainSizeSamples"
    using assms(2) by (simp add: mult_le_mono1)
  then have "real (grain * grainSizeSamples + grainSizeSamples)
             \<le> real (grain' * grainSizeSamples + grainSizeSamples)"
    by (simp only: of_nat_le_iff)
  then have sizes: "binary32 (real (grain * grainSizeSamples + grainSizeSamples))
             \<le> binary32 (real (grain' * grainSizeSamples + grainSizeSamples))"
    by (intro binary32_mono) simp_all
  have "0 \<le> binary32 (real (grain * grainSizeSamples + grainSizeSamples))"
    by (intro binary32_nonneg_result) simp
  then have "0 \<le> binary32 (real (grain * grainSizeSamples + grainSizeSamples)) *
                  timeMultiplier"
    using assms(1) by simp
  moreover have "binary32 (real (grain * grainSizeSamples + grainSizeSamples)) *
                   timeMultiplier
                 \<le> binary32 (real (grain' * grainSizeSamples + grainSizeSamples)) *
                   timeMultiplier"
    using sizes assms(1) by (rule mult_right_mono)
  ultimately have "binary32 (binary32 (real (grain * grainSizeSamples + grainSizeSamples)) *
                             timeMultiplier)
                   \<le> binary32 (binary32 (real (grain' * grainSizeSamples +
                                               grainSizeSamples)) * timeMultiplier)"
    by (rule binary32_mono)
  then show ?thesis
    unfolding windowEndOf_def to_size_t_def by (intro nat_mono floor_mono)
qed

text \<open>
  When the fixed engine returns. With at least one channel, an input of fewer than
  \<open>2 ^ 24\<close> samples (so that every grain start is a binary32 value), a positive grain size
  and a time multiplier that is not negative, the call never returns exactly when the
  window end of the final grain, computed from the full grain size, lies beyond the last
  frame of the output. Both sides are the truncated float products of the code. When the
  number of frames per channel is a multiple of the grain size the two are the same
  product, and the call returns.
\<close>

lemma engine_never_returns_iff:
  assumes "numChannels \<ge> 1" and "0 \<le> timeMultiplier"
    and n: "n = length input div numChannels"
    and g: "grainSizeSamples =
              to_size_t (binary32 (binary32 (real sampleRate) * grainSizeSeconds))"
    and "0 < grainSizeSamples"
    and k: "numGrains = n div grainSizeSamples +
                        (if n mod grainSizeSamples \<noteq> 0 then 1 else 0)"
    and small: "length input < 2 ^ 24"
  shows "GranularTimePitchAdjust st input numChannels sampleRate timeMultiplier
           pitchMultiplier grainSizeSeconds crossFadeSeconds = None \<longleftrightarrow>
         to_size_t (binary32 (binary32 (real n) * timeMultiplier))
         < to_size_t (binary32 (binary32 (real (numGrains * grainSizeSamples)) *
                                timeMultiplier))"
proof -
  define numOut where "numOut = to_size_t (binary32 (binary32 (real n) * timeMultiplier))"
  define crossFadeSizeSamples where
    "crossFadeSizeSamples =
       to_size_t (binary32 (binary32 (real sampleRate) * crossFadeSeconds))"
  define s0 where
    "s0 = \<lparr>outputSampleIndex = 0, lastGrainWritten = size_t_minus_1,
            outputBuffer = replicate (numOut * numChannels) 0, process = st\<rparr>"
  have run: "GranularTimePitchAdjust st input numChannels sampleRate timeMultiplier
               pitchMultiplier grainSizeSeconds crossFadeSeconds =
             map_option (\<lambda>s. Inr (outputBuffer s, process s))
               (grainFor input numChannels grainSizeSamples crossFadeSizeSamples
                  timeMultiplier pitchMultiplier numGrains [0..<numGrains] s0)"
    unfolding GranularTimePitchAdjust_def Let_def s0_def numOut_def
      crossFadeSizeSamples_def n [symmetric] g [symmetric] k [symmetric]
    using assms(1,5) by simp
  have inside: "cursorInside numChannels s0"
    by (simp add: cursorInside_def s0_def)
  have input: "\<forall>grain \<in> set [0..<numGrains].
                 grain * grainSizeSamples * numChannels + numChannels \<le> length input"
  proof
    fix grain
    assume "grain \<in> set [0..<numGrains]"
    then have "grain * grainSizeSamples < n"
      using assms(5) k by (intro grain_has_input) simp_all
    then have "Suc (grain * grainSizeSamples) * numChannels \<le> n * numChannels"
      by (intro mult_le_mono1) simp
    also have "\<dots> \<le> length input"
      by (simp add: n)
    finally show "grain * grainSizeSamples * numChannels + numChannels \<le> length input"
      by simp
  qed
  have len0: "length (outputBuffer s0) = numOut * numChannels"
    by (simp add: s0_def)
  have fit: "(\<forall>grain \<in> set [0..<numGrains].
                windowEndOf grainSizeSamples timeMultiplier grain * numChannels
                \<le> length (outputBuffer s0)) \<longleftrightarrow>
             \<not> numOut < to_size_t (binary32 (binary32 (real (numGrains * grainSizeSamples)) *
                                timeMultiplier))"
  proof (cases "numGrains = 0")
    case True
    then show ?thesis
      by (simp add: to_size_t_def binary32_0)
  next
    case False
    have final: "windowEndOf grainSizeSamples timeMultiplier (numGrains - 1) =
                 to_size_t (binary32 (binary32 (real (numGrains * grainSizeSamples)) *
                                timeMultiplier))"
    proof -
      have "(numGrains - 1) * grainSizeSamples + grainSizeSamples =
            numGrains * grainSizeSamples"
        using False by (simp add: diff_mult_distrib)
      then show ?thesis
        by (simp only: windowEndOf_def)
    qed
    show ?thesis
    proof
      assume "\<forall>grain \<in> set [0..<numGrains].
                windowEndOf grainSizeSamples timeMultiplier grain * numChannels
                \<le> length (outputBuffer s0)"
      then have "windowEndOf grainSizeSamples timeMultiplier (numGrains - 1) * numChannels
                 \<le> numOut * numChannels"
        using False len0 by simp
      then show "\<not> numOut
                  < to_size_t (binary32 (binary32 (real (numGrains * grainSizeSamples)) *
                                timeMultiplier))"
        using assms(1) final by simp
    next
      assume fits: "\<not> numOut
                  < to_size_t (binary32 (binary32 (real (numGrains * grainSizeSamples)) *
                                timeMultiplier))"
      show "\<forall>grain \<in> set [0..<numGrains].
                windowEndOf grainSizeSamples timeMultiplier grain * numChannels
                \<le> length (outputBuffer s0)"
      proof
        fix grain
        assume "grain \<in> set [0..<numGrains]"
        then have "grain \<le> numGrains - 1"
          by simp
        then have "windowEndOf grainSizeSamples timeMultiplier grain
                   \<le> windowEndOf grainSizeSamples timeMultiplier (numGrains - 1)"
          using assms(2) by (intro windowEndOf_mono)
        also have "\<dots> \<le> numOut"
          using fits final by simp
        finally show "windowEndOf grainSizeSamples timeMultiplier grain * numChannels
                      \<le> length (outputBuffer s0)"
          by (simp add: len0)
      qed
    qed
  qed
  from grainFor_result [OF assms(1,5) input inside small,
      of timeMultiplier crossFadeSizeSamples pitchMultiplier numGrains]
  have "grainFor input numChannels grainSizeSamples crossFadeSizeSamples
          timeMultiplier pitchMultiplier numGrains [0..<numGrains] s0 = None \<longleftrightarrow>
        numOut < to_size_t (binary32 (binary32 (real (numGrains * grainSizeSamples)) *
                                timeMultiplier))"
    unfolding fit by (auto split: if_splits)
  then show ?thesis
    unfolding run numOut_def by simp
qed

text \<open>A state that the loop body maps to itself below the window end is never left.\<close>

lemma grainWhile_stuck:
  assumes "grainStep input numChannels grainSizeSamples crossFadeSizeSamples pitchMultiplier
             numGrains grain s = Some s"
    and "outputSampleIndex s < windowEnd"
  shows "grainWhile input numChannels grainSizeSamples crossFadeSizeSamples pitchMultiplier
           numGrains grain windowEnd s = None"
proof (rule ccontr)
  assume "grainWhile input numChannels grainSizeSamples crossFadeSizeSamples pitchMultiplier
           numGrains grain windowEnd s \<noteq> None"
  then obtain r where "grainWhile input numChannels grainSizeSamples crossFadeSizeSamples
           pitchMultiplier numGrains grain windowEnd s = Some r"
    by blast
  then have "\<not> (grainStep input numChannels grainSizeSamples crossFadeSizeSamples
                   pitchMultiplier numGrains grain s = Some s \<and>
                 outputSampleIndex s < windowEnd)"
  proof (induction rule: grainWhile.raw_induct [rotated 1, consumes 1])
    case (1 loop input numChannels grainSizeSamples crossFadeSizeSamples pitchMultiplier
        numGrains grain windowEnd s r)
    show ?case
    proof
      assume stuck: "grainStep input numChannels grainSizeSamples crossFadeSizeSamples
                   pitchMultiplier numGrains grain s = Some s \<and>
                 outputSampleIndex s < windowEnd"
      with 1(2) have "loop input numChannels grainSizeSamples crossFadeSizeSamples
                   pitchMultiplier numGrains grain windowEnd s = Some r"
        by simp
      from 1(1) [OF this] stuck show False
        by simp
    qed
  qed
  with assms show False
    by simp
qed

lemmas evaluate_engine =
  grainStep_def grainMinus1_def size_t_minus_1_def initial_state_def evaluate_writer

lemma grain0:
  "grainWhile [1 / 2, 1 / 4, 1 / 8] 1 2 1 1 2 0 2
     \<lparr>outputSampleIndex = 0, lastGrainWritten = size_t_minus_1,
      outputBuffer = [0, 0, 0], process = initial_state\<rparr> =
   Some \<lparr>outputSampleIndex = 2, lastGrainWritten = 0,
         outputBuffer = [1 / 2, 1 / 4, 0], process = initial_state\<rparr>"
  by (simp add: grainWhile.simps evaluate_engine)

lemma grain1_first:
  "grainStep [1 / 2, 1 / 4, 1 / 8] 1 2 1 1 2 1
     \<lparr>outputSampleIndex = 2, lastGrainWritten = 0,
      outputBuffer = [1 / 2, 1 / 4, 0], process = initial_state\<rparr> =
   Some \<lparr>outputSampleIndex = 3, lastGrainWritten = 1,
         outputBuffer = [1 / 2, 1 / 4, 1 / 8], process = initial_state\<rparr>"
  by (simp add: evaluate_engine)

lemma grain1_stuck:
  "grainStep [1 / 2, 1 / 4, 1 / 8] 1 2 1 1 2 1
     \<lparr>outputSampleIndex = 3, lastGrainWritten = 1,
      outputBuffer = [1 / 2, 1 / 4, 1 / 8], process = initial_state\<rparr> =
   Some \<lparr>outputSampleIndex = 3, lastGrainWritten = 1,
         outputBuffer = [1 / 2, 1 / 4, 1 / 8], process = initial_state\<rparr>"
  by (simp add: evaluate_engine)

lemma grain1:
  "grainWhile [1 / 2, 1 / 4, 1 / 8] 1 2 1 1 2 1 4
     \<lparr>outputSampleIndex = 2, lastGrainWritten = 0,
      outputBuffer = [1 / 2, 1 / 4, 0], process = initial_state\<rparr> = None"
proof -
  have "grainWhile [1 / 2, 1 / 4, 1 / 8] 1 2 1 1 2 1 4
     \<lparr>outputSampleIndex = 3, lastGrainWritten = 1,
      outputBuffer = [1 / 2, 1 / 4, 1 / 8], process = initial_state\<rparr> = None"
    using grain1_stuck by (rule grainWhile_stuck) simp
  then show ?thesis
    by (subst grainWhile.simps) (simp add: grain1_first del: One_nat_def)
qed

text \<open>
  Claim C1 states that the fixed engine returns on every valid input; the code does not.
  The input is three mono frames at the sample rate 2, with grains of one second
  (2 frames), a cross fade of half a second (1 frame) and both multipliers 1: a valid
  buffer, one channel, a positive grain size and positive multipliers. The output has
  3 frames, but the window of the second grain ends at frame 4. Once the output is full
  every write returns 0, the cursor stays at 3, and the loop never ends: the call does not
  return.
\<close>

theorem engine_never_returns:
  "GranularTimePitchAdjust initial_state [1 / 2, 1 / 4, 1 / 8] 1 2 1 1 1 (1 / 2) = None"
proof -
  have grains: "[0..<2] = [0, 1 :: nat]"
    by (simp add: upt_rec)
  have "to_size_t 1 = 1" "to_size_t 2 = 2" "to_size_t 3 = 3" "to_size_t 4 = 4"
    by (simp_all add: to_size_t_def)
  then show ?thesis
    by (simp add: GranularTimePitchAdjust_def grains grain0 grain1 numeral_3_eq_3
        evaluate_binary32 del: One_nat_def)
qed

section \<open>The allocation of the dynamic engine\<close>

lemmas evaluate_dynamic =
  dynamicStep_def grainMinus1_def size_t_minus_1_def initial_state_def evaluate_writer

lemma dynamic_grain0:
  "dynamicWhile [1, 2, 3, 4, 5, 6] 2 2 1 1 2 0
     \<lparr>outputSampleIndex = 0, lastGrainWritten = size_t_minus_1,
      outputBuffer = [0, 0, 0, 0, 0, 0, 0, 0], process = initial_state,
      lastGrainPitchMultiplier = 1, outputSampleWindowEnd = 2\<rparr> =
   Some \<lparr>outputSampleIndex = 2, lastGrainWritten = 0,
         outputBuffer = [1, 2, 3, 4, 0, 0, 0, 0], process = initial_state,
         lastGrainPitchMultiplier = 1, outputSampleWindowEnd = 2\<rparr>"
  by (simp add: dynamicWhile.simps evaluate_dynamic)

lemma dynamic_grain1:
  "dynamicWhile [1, 2, 3, 4, 5, 6] 2 2 1 1 2 1
     \<lparr>outputSampleIndex = 2, lastGrainWritten = 0,
      outputBuffer = [1, 2, 3, 4, 0, 0, 0, 0], process = initial_state,
      lastGrainPitchMultiplier = 1, outputSampleWindowEnd = 4\<rparr> =
   Some \<lparr>outputSampleIndex = 4, lastGrainWritten = 1,
         outputBuffer = [1, 2, 3, 4, 5, 6, 0, 0], process = initial_state,
         lastGrainPitchMultiplier = 1, outputSampleWindowEnd = 4\<rparr>"
  by (simp add: dynamicWhile.simps evaluate_dynamic)

lemma dynamic_alloc:
  "dynamicOutputSamples [1, 2, 3, 4, 5, 6] 2 2 (\<lambda>percent preset. preset) = 4"
  by (simp add: dynamicOutputSamples_def to_size_t_def upt_rec evaluate_binary32)

lemma dynamic_run:
  "GranularTimePitchAdjustDynamic initial_state [1, 2, 3, 4, 5, 6] 2 2 1 (1 / 2)
     (\<lambda>percent preset. preset) =
   Some (Inr ([1, 2, 3, 4, 5, 6, 0, 0], initial_state))"
proof -
  have zeros: "replicate 8 (0 :: real) = [0, 0, 0, 0, 0, 0, 0, 0]"
    by (simp add: numeral_eq_Suc)
  have sizes: "to_size_t 2 = 2" "to_size_t 1 = 1"
    by (simp_all add: to_size_t_def)
  have grains: "[0..<2] = [0, 1 :: nat]"
    by (simp add: upt_rec)
  have "GranularTimePitchAdjustDynamic initial_state [1, 2, 3, 4, 5, 6] 2 2 1 (1 / 2)
          (\<lambda>percent preset. preset) =
        map_option (\<lambda>s. Inr (outputBuffer s, process s))
          (dynamicFor [1, 2, 3, 4, 5, 6] 2 2 1 (\<lambda>percent preset. preset) 2 [0, 1]
             \<lparr>outputSampleIndex = 0, lastGrainWritten = size_t_minus_1,
              outputBuffer = [0, 0, 0, 0, 0, 0, 0, 0], process = initial_state,
              lastGrainPitchMultiplier = 1, outputSampleWindowEnd = 0\<rparr>)"
    by (simp add: GranularTimePitchAdjustDynamic_def dynamic_alloc zeros sizes grains
        evaluate_binary32 del: One_nat_def)
  also have "\<dots> = Some (Inr ([1, 2, 3, 4, 5, 6, 0, 0], initial_state))"
    by (simp add: sizes dynamic_grain0 dynamic_grain1 evaluate_binary32 del: One_nat_def)
  finally show ?thesis .
qed

lemma foldl_add_sum_list:
  "foldl (\<lambda>acc i. acc + f i) a xs = a + sum_list (map f xs)"
  for a :: nat
  by (induction xs arbitrary: a) simp_all

text \<open>
  With one channel the allocation of the dynamic engine is the sum that the specification
  describes: frames and interleaved samples are the same unit.
\<close>

lemma dynamic_allocation_mono:
  assumes "0 < grainSizeSamples"
    and k: "numGrains = length input div grainSizeSamples +
                        (if length input mod grainSizeSamples \<noteq> 0 then 1 else 0)"
  shows "dynamicOutputSamples input grainSizeSamples numGrains settingsCallback =
         specifiedOutputSamples input 1 grainSizeSamples numGrains settingsCallback"
proof -
  let ?n = "length input"
  have size: "min (grain * grainSizeSamples + grainSizeSamples) ?n - grain * grainSizeSamples =
              (if grain = numGrains - 1 \<and> ?n mod grainSizeSamples \<noteq> 0
               then ?n - grain * grainSizeSamples else grainSizeSamples)"
    if "grain < numGrains" for grain
  proof (cases "grain = numGrains - 1 \<and> ?n mod grainSizeSamples \<noteq> 0")
    case True
    then have "grain = ?n div grainSizeSamples"
      using k by simp
    then have "?n < grain * grainSizeSamples + grainSizeSamples"
      using assms(1) by (metis add.commute div_less_iff_less_mult less_Suc_eq mult_Suc)
    then show ?thesis
      using True by simp
  next
    case False
    have "Suc grain \<le> ?n div grainSizeSamples"
    proof (cases "?n mod grainSizeSamples = 0")
      case True
      then show ?thesis
        using that k by simp
    next
      case nonzero: False
      with False have "grain \<noteq> numGrains - 1"
        by simp
      then show ?thesis
        using that k nonzero by simp
    qed
    then have "Suc grain * grainSizeSamples \<le> (?n div grainSizeSamples) * grainSizeSamples"
      by (rule mult_le_mono1)
    also have "\<dots> \<le> ?n"
      by simp
    finally have "min (grain * grainSizeSamples + grainSizeSamples) ?n - grain * grainSizeSamples
                  = grainSizeSamples"
      by simp
    then show ?thesis
      using False by auto
  qed
  have "dynamicOutputSamples input grainSizeSamples numGrains settingsCallback =
        sum_list (map (\<lambda>grain.
          to_size_t (binary32 (binary32 (real (min (grain * grainSizeSamples +
                                                     grainSizeSamples) ?n -
                                                grain * grainSizeSamples)) *
                               fst (settingsCallback
                                      (binary32 (binary32 (real grain) /
                                                 binary32 (real numGrains))) (1, 1)))))
          [0..<numGrains])"
    by (simp add: dynamicOutputSamples_def Let_def case_prod_beta foldl_add_sum_list)
  also have "\<dots> = specifiedOutputSamples input 1 grainSizeSamples numGrains settingsCallback"
    unfolding specifiedOutputSamples_def Let_def
    by (intro arg_cong [where f = sum_list] map_cong refl) (simp add: size)
  finally show ?thesis .
qed

text \<open>
  Claim C9 states that the final grain counts with the frames left in its channel; with
  more than one channel the code counts it in full. The
  input is three stereo frames at the sample rate 2 with grains of one second (2 frames)
  and a callback that leaves both multipliers at 1. The final grain has one frame left, so
  the sum the claim describes is \<open>2 + 1 = 3\<close> frames. The code clamps the end of the grain,
  counted in frames, against the length of the interleaved buffer, 6, so the final grain
  counts in full and 4 frames, 8 samples, are allocated; the last frame stays silent.
\<close>

theorem dynamic_allocation_stereo:
  "dynamicOutputSamples [1, 2, 3, 4, 5, 6] 2 2 (\<lambda>percent preset. preset) = 4 \<and>
   specifiedOutputSamples [1, 2, 3, 4, 5, 6] 2 2 2 (\<lambda>percent preset. preset) = 3 \<and>
   GranularTimePitchAdjustDynamic initial_state [1, 2, 3, 4, 5, 6] 2 2 1 (1 / 2)
     (\<lambda>percent preset. preset) =
   Some (Inr ([1, 2, 3, 4, 5, 6, 0, 0], initial_state))"
proof -
  have "specifiedOutputSamples [1, 2, 3, 4, 5, 6] 2 2 2 (\<lambda>percent preset. preset) = 3"
    by (simp add: specifiedOutputSamples_def to_size_t_def upt_rec evaluate_binary32)
  then show ?thesis
    using dynamic_alloc dynamic_run by simp
qed

end
